theory Spec2Isabelle
  imports Main
begin

section \<open>Data model\<close>

text \<open>
  The rubberband handler of \<^verbatim>\<open>packages/x6/src/handler/rubberband/handler.ts\<close>.
  Coordinates are pixel counts, modelled as unbounded integers. A JavaScript reference
  that is \<^verbatim>\<open>null\<close> or \<^verbatim>\<open>undefined\<close> is \<open>None\<close>; the source only ever tests
  such references with \<^verbatim>\<open>!= null\<close>, \<^verbatim>\<open>== null\<close> or truthiness, which do not
  tell the two apart.
\<close>

text \<open>An \<^verbatim>\<open>HTMLDivElement\<close> is known by its identity; \<^verbatim>\<open>document.createElement\<close> hands
  out the next unused one.\<close>

type_synonym elem = nat

text \<open>The class \<^verbatim>\<open>Point\<close>. Its fields \<^verbatim>\<open>x\<close> and \<^verbatim>\<open>y\<close> carry a suffix, since a
  constant of that name would capture the variables of every later statement.\<close>

record point =
  x_pt :: int
  y_pt :: int

text \<open>The arguments of \<^verbatim>\<open>new Rectangle(this.x, this.y, this.width, this.height)\<close>:
  the four fields are declared without initialiser, so each is undefined until the first
  repaint.\<close>

datatype rectangle = Rectangle "int option" "int option" "int option" "int option"

text \<open>A value of an inline style property: the empty string of a new element, a text,
  or a length made by \<^verbatim>\<open>util.toPx\<close>.\<close>

datatype css_value = Unset | Text string | Px int

record css =
  className :: "(string \<times> string \<times> string) option"
  style_opacity :: css_value
  style_border :: css_value
  style_background :: css_value
  style_position :: css_value
  style_left :: css_value
  style_top :: css_value
  style_width :: css_value
  style_height :: css_value
  style_transition :: css_value
  style_pointerEvents :: css_value
  style_display :: css_value

definition new_css :: css where
  "new_css = \<lparr> className = None, style_opacity = Unset, style_border = Unset,
     style_background = Unset, style_position = Unset, style_left = Unset,
     style_top = Unset, style_width = Unset, style_height = Unset,
     style_transition = Unset, style_pointerEvents = Unset, style_display = Unset \<rparr>"

text \<open>What \<^verbatim>\<open>getRubberbandStyle\<close> returns. The function is defined in the module
  \<^verbatim>\<open>./option\<close>, not in the handler, and is a parameter of the model; \<open>rs_opacity\<close> is
  the text that the template \<^verbatim>\<open>${style.opacity || ''}\<close> makes of its opacity.\<close>

record rb_style =
  rs_className :: string
  rs_opacity :: string
  rs_border :: string
  rs_background :: string

text \<open>The closures \<^verbatim>\<open>onMouseMove\<close> and \<^verbatim>\<open>onMouseUp\<close> are made anew by every call of
  \<^verbatim>\<open>start\<close>; the number tells the calls apart, as object identity does for
  \<^verbatim>\<open>removeEventListener\<close>.\<close>

datatype listener = MoveListener nat | UpListener nat

datatype channel = MouseEventChannel | PanChannel | GestureChannel

text \<open>The native \<^verbatim>\<open>MouseEvent\<close> and the wrapper \<^verbatim>\<open>MouseEventEx\<close> around it.
  \<open>onCell\<close> says that \<^verbatim>\<open>getState()\<close> is not null, \<open>multiTouch\<close> what
  \<^verbatim>\<open>DomEvent.isMultiTouchEvent\<close> answers, \<open>altKey\<close> what \<^verbatim>\<open>DomEvent.isAltDown\<close>
  answers.\<close>

record native_event =
  ev_id :: nat
  clientX :: int
  clientY :: int
  altKey :: bool
  multiTouch :: bool
  defaultPrevented :: bool

record mouse_event_ex =
  evt :: native_event
  onCell :: bool
  consumed :: bool
  graphX :: int
  graphY :: int

text \<open>Everything the handler reads or writes outside its own fields: the graph, its
  container, the document and the window.
  \<^item> \<open>options_enabled\<close> and \<open>options_fadeOut\<close> are \<^verbatim>\<open>graph.options.rubberband\<close>;
  \<open>panX\<close>, \<open>panY\<close>, \<open>tolerance\<close> and \<open>prefixCls\<close> are the properties of the graph
  of these names.
  \<^item> \<open>getRubberbandStyle\<close> and \<open>clientToGraph\<close> are the imported functions of these
  names, applied to the graph and its container.
  \<^item> \<open>channels\<close> holds the channels of the graph on which a closure of the handler is
  subscribed; \<open>handlerRegistered\<close> is cleared by \<^verbatim>\<open>graph.removeHandler\<close>.
  \<^item> \<open>selectCalls\<close> records the calls of \<^verbatim>\<open>graph.selectCellsInRegion\<close>, oldest
  first, each with its rectangle and its event.
  \<^item> \<open>scrollOrigin\<close> and \<open>containerOffset\<close> are what \<^verbatim>\<open>util.getScrollOrigin\<close> and
  \<^verbatim>\<open>util.getOffset\<close> return for the container.
  \<^item> \<open>children\<close> are the overlay elements in the container, \<open>elems\<close> the inline style
  of every element, \<open>nextElem\<close> the next element that \<^verbatim>\<open>document.createElement\<close> makes.
  \<^item> \<open>docListeners\<close> are the closures attached to the document, \<open>nextListener\<close> numbers
  the next pair of closures; \<open>timers\<close> are the elements whose removal a timer of
  \<^verbatim>\<open>window.setTimeout\<close> has pending, oldest first.
  \<^item> \<open>IS_FIREFOX\<close> is \<^verbatim>\<open>detector.IS_FIREFOX\<close>; \<open>textSelection\<close> says that the page has
  a native text selection.\<close>

record graph_env =
  options_enabled :: bool
  options_fadeOut :: bool
  panX :: int
  panY :: int
  tolerance :: int
  prefixCls :: string
  getRubberbandStyle :: "int \<Rightarrow> int \<Rightarrow> int \<Rightarrow> int \<Rightarrow> rb_style"
  clientToGraph :: "int \<Rightarrow> int \<Rightarrow> point"
  channels :: "channel set"
  handlerRegistered :: bool
  selectCalls :: "(rectangle \<times> native_event) list"
  scrollOrigin :: point
  containerOffset :: point
  children :: "elem list"
  elems :: "elem \<Rightarrow> css"
  nextElem :: nat
  docListeners :: "listener list"
  nextListener :: nat
  timers :: "elem list"
  IS_FIREFOX :: bool
  textSelection :: bool

text \<open>The handler: the environment extended by the fields of the class (and by
  \<open>enabled\<close>, the flag of the base class behind \<^verbatim>\<open>setEnadled\<close> and
  \<^verbatim>\<open>isEnabled\<close>). \<open>div_rb\<close>, \<open>x_rb\<close>, \<open>y_rb\<close>, \<open>width_rb\<close> and
  \<open>height_rb\<close> are the fields \<^verbatim>\<open>div\<close>, \<^verbatim>\<open>x\<close>, \<^verbatim>\<open>y\<close>, \<^verbatim>\<open>width\<close> and
  \<^verbatim>\<open>height\<close>.\<close>

record rubberband = graph_env +
  enabled :: bool
  fadeOut :: bool
  div_rb :: "elem option"
  sharedDiv :: "elem option"
  onMouseMove :: "listener option"
  onMouseUp :: "listener option"
  origin :: "point option"
  currentX :: int
  currentY :: int
  x_rb :: "int option"
  y_rb :: "int option"
  width_rb :: "int option"
  height_rb :: "int option"


section \<open>Collaborators\<close>

text \<open>
  The wrapper class \<^verbatim>\<open>MouseEventEx\<close>, the base class \<^verbatim>\<open>MouseHandler\<close> and the
  packages \<^verbatim>\<open>x6-util\<close>, \<^verbatim>\<open>x6-dom-event\<close> and \<^verbatim>\<open>x6-detector\<close> are called by the
  handler and defined elsewhere in the repository. Each operation of theirs that the
  handler calls is written here from what the specification says of it.
\<close>

text \<open>Modelled from the spec: \<^verbatim>\<open>MouseEventEx.consume(preventDefault = true)\<close> and
  \<^verbatim>\<open>isConsumed\<close>, defined outside the handler. The specification names "a consume
  operation (optionally non-default-preventing)" and "a consumed query": the call marks
  the wrapper consumed and, unless told otherwise, prevents the default handling of the
  native event.\<close>

definition consume :: "bool \<Rightarrow> mouse_event_ex \<Rightarrow> mouse_event_ex" where
  "consume preventDefault e =
     e\<lparr> evt := (evt e)\<lparr> defaultPrevented := (defaultPrevented (evt e) \<or> preventDefault) \<rparr>,
        consumed := True \<rparr>"

definition isConsumed :: "mouse_event_ex \<Rightarrow> bool" where
  "isConsumed e = consumed e"

definition getEvent :: "mouse_event_ex \<Rightarrow> native_event" where
  "getEvent e = evt e"

definition getClientX :: "mouse_event_ex \<Rightarrow> int" where
  "getClientX e = clientX (evt e)"

definition getClientY :: "mouse_event_ex \<Rightarrow> int" where
  "getClientY e = clientY (evt e)"

text \<open>Modelled from the spec: \<^verbatim>\<open>MouseHandler.isValid\<close>, \<^verbatim>\<open>isOnCell\<close> and
  \<^verbatim>\<open>isMultiTouchEvent\<close>, defined in the base class. A pointer-down is "ignored unless
  controller is enabled", on "empty canvas (not on a shape)" and "not a multi-touch
  gesture"; an event that an earlier listener consumed is taken to be not valid either.
  The theorems below hold whatever \<open>isValid\<close> tests; only the examples evaluate it.\<close>

definition isValid :: "rubberband \<Rightarrow> mouse_event_ex \<Rightarrow> bool" where
  "isValid h e = (enabled h \<and> \<not> isConsumed e)"

definition isOnCell :: "mouse_event_ex \<Rightarrow> bool" where
  "isOnCell e = onCell e"

definition isMultiTouchEvent :: "mouse_event_ex \<Rightarrow> bool" where
  "isMultiTouchEvent e = multiTouch (getEvent e)"

text \<open>Modelled from the spec: \<^verbatim>\<open>DomEvent.addMouseListeners\<close> and
  \<^verbatim>\<open>DomEvent.removeMouseListeners\<close> on the document, defined outside the handler.
  Detaching is "unconditional (idempotent-safe)": a null listener, or one that is not
  attached, is passed over.\<close>

definition addMouseListeners :: "listener \<Rightarrow> listener \<Rightarrow> listener list \<Rightarrow> listener list" where
  "addMouseListeners mv up ls = ls @ [mv, up]"

definition removeListener :: "listener option \<Rightarrow> listener list \<Rightarrow> listener list" where
  "removeListener l ls = (case l of None \<Rightarrow> ls | Some k \<Rightarrow> removeAll k ls)"

definition removeMouseListeners ::
  "listener option \<Rightarrow> listener option \<Rightarrow> listener list \<Rightarrow> listener list" where
  "removeMouseListeners mv up ls = removeListener up (removeListener mv ls)"

text \<open>Modelled from the spec: \<^verbatim>\<open>appendChild\<close> on the container and
  \<^verbatim>\<open>util.removeElement\<close>, the "DOM element creation/removal primitives". Appending a
  node that is already a child moves it to the end; removing a node that has no parent
  does nothing.\<close>

definition appendChild :: "elem \<Rightarrow> rubberband \<Rightarrow> rubberband" where
  "appendChild d h = h\<lparr> children := removeAll d (children h) @ [d] \<rparr>"

definition removeElement :: "elem \<Rightarrow> rubberband \<Rightarrow> rubberband" where
  "removeElement d h = h\<lparr> children := removeAll d (children h) \<rparr>"

text \<open>Modelled from the spec: \<^verbatim>\<open>util.clearSelection\<close>, which is to "clear any native
  text selection".\<close>

definition clearSelection :: "rubberband \<Rightarrow> rubberband" where
  "clearSelection h = h\<lparr> textSelection := False \<rparr>"

text \<open>\<^verbatim>\<open>document.createElement('div')\<close>: a new element, with no inline style.\<close>

definition createElement :: "rubberband \<Rightarrow> elem \<times> rubberband" where
  "createElement h =
     (nextElem h, h\<lparr> elems := (elems h)(nextElem h := new_css), nextElem := Suc (nextElem h) \<rparr>)"

section \<open>The handler\<close>

text \<open>\<^verbatim>\<open>config\<close> reads the options; \<^verbatim>\<open>setEnadled\<close> of the base class sets the flag
  \<open>enabled\<close>.\<close>

definition config :: "rubberband \<Rightarrow> rubberband" where
  "config h = h\<lparr> enabled := options_enabled h, fadeOut := options_fadeOut h \<rparr>"

text \<open>The constructor: the field initialisers of the class (in the order of the record:
  enabled, no fade-out, no overlay, no shared overlay, no listeners, no origin, current
  position (0, 0), no rectangle), then \<^verbatim>\<open>config()\<close>, then the three subscriptions
  \<^verbatim>\<open>graph.on('mouseEvent' | 'pan' | 'gesture', ...)\<close>.\<close>

definition "constructor" :: "graph_env \<Rightarrow> rubberband" where
  "constructor g =
     (let h = config (graph_env.extend g
                (rubberband.fields True False None None None None None 0 0 None None None None))
      in h\<lparr> channels := channels h \<union> {MouseEventChannel, PanChannel, GestureChannel} \<rparr>)"

text \<open>\<^verbatim>\<open>enable\<close> and \<^verbatim>\<open>disable\<close> write the option and, through the method of the
  base class, the flag.\<close>

definition enable :: "rubberband \<Rightarrow> rubberband" where
  "enable h = h\<lparr> options_enabled := True, enabled := True \<rparr>"

definition disable :: "rubberband \<Rightarrow> rubberband" where
  "disable h = h\<lparr> options_enabled := False, enabled := False \<rparr>"

definition isForceRubberbandEvent :: "mouse_event_ex \<Rightarrow> bool" where
  "isForceRubberbandEvent e = altKey (getEvent e)"

text \<open>\<^verbatim>\<open>util.getScrollOrigin\<close> and \<^verbatim>\<open>util.getOffset\<close> of the container are the fields
  \<open>scrollOrigin\<close> and \<open>containerOffset\<close> of the environment.\<close>

definition getPosition :: "mouse_event_ex \<Rightarrow> rubberband \<Rightarrow> point" where
  "getPosition e h =
     \<lparr> x_pt = getClientX e + (x_pt (scrollOrigin h) - x_pt (containerOffset h)),
       y_pt = getClientY e + (y_pt (scrollOrigin h) - y_pt (containerOffset h)) \<rparr>"

definition start :: "int \<Rightarrow> int \<Rightarrow> rubberband \<Rightarrow> rubberband" where
  "start x y h =
     (let mv = MoveListener (nextListener h);
          up = UpListener (nextListener h);
          h1 = h\<lparr> nextListener := Suc (nextListener h),
                  onMouseMove := Some mv, onMouseUp := Some up,
                  origin := Some \<lparr> x_pt = x, y_pt = y \<rparr> \<rparr>
      in if IS_FIREFOX h1
         then h1\<lparr> docListeners := addMouseListeners mv up (docListeners h1) \<rparr>
         else h1)"

definition prepare :: "mouse_event_ex \<Rightarrow> rubberband \<Rightarrow> mouse_event_ex \<times> rubberband" where
  "prepare e h =
     (let p = getPosition e h in (consume False e, start (x_pt p) (y_pt p) h))"

definition mouseDown :: "mouse_event_ex \<Rightarrow> rubberband \<Rightarrow> mouse_event_ex \<times> rubberband" where
  "mouseDown e h =
     (if isValid h e \<and> \<not> isOnCell e \<and> \<not> isMultiTouchEvent e then prepare e h else (e, h))"

definition onMouseEvent ::
  "string \<Rightarrow> mouse_event_ex \<Rightarrow> rubberband \<Rightarrow> mouse_event_ex \<times> rubberband" where
  "onMouseEvent eventName e h =
     (if eventName = ''mouseDown'' \<and> isForceRubberbandEvent e then prepare e h else (e, h))"

definition createShape :: "rubberband \<Rightarrow> elem \<times> rubberband" where
  "createShape h =
     (let (result, h1) =
            (case sharedDiv h of
               None \<Rightarrow> (let (d, h') = createElement h in (d, h'\<lparr> sharedDiv := Some d \<rparr>))
             | Some d \<Rightarrow> (d, h));
          h2 = appendChild result h1
      in (result, if fadeOut h2 then h2\<lparr> sharedDiv := None \<rparr> else h2))"

definition repaint :: "rubberband \<Rightarrow> rubberband" where
  "repaint h =
     (case div_rb h of
        None \<Rightarrow> h
      | Some d \<Rightarrow>
         (case origin h of
            None \<Rightarrow> h
          | Some p \<Rightarrow>
             (let x = currentX h - panX h;
                  y = currentY h - panY h;
                  nx = min (x_pt p) x;
                  ny = min (y_pt p) y;
                  nw = max (x_pt p) x - nx;
                  nh = max (y_pt p) y - ny;
                  style = getRubberbandStyle h nx ny nw nh
              in h\<lparr> elems := (elems h)(d := (elems h d)\<lparr>
                        className := Some (prefixCls h, ''rubberband'', rs_className style),
                        style_opacity := Text (rs_opacity style),
                        style_border := Text (rs_border style),
                        style_background := Text (rs_background style),
                        style_position := Text ''absolute'',
                        style_left := Px nx,
                        style_top := Px ny,
                        style_width := Px (max 1 nw),
                        style_height := Px (max 1 nh) \<rparr>),
                      x_rb := Some nx, y_rb := Some ny,
                      width_rb := Some nw, height_rb := Some nh \<rparr>)))"

definition update :: "int \<Rightarrow> int \<Rightarrow> rubberband \<Rightarrow> rubberband" where
  "update x y h = repaint (h\<lparr> currentX := x, currentY := y \<rparr>)"

definition mouseMove :: "mouse_event_ex \<Rightarrow> rubberband \<Rightarrow> mouse_event_ex \<times> rubberband" where
  "mouseMove e h =
     (if \<not> isConsumed e then
        (case origin h of
           None \<Rightarrow> (e, h)
         | Some p \<Rightarrow>
            (let q = getPosition e h;
                 dx = x_pt p - x_pt q;
                 dy = y_pt p - y_pt q;
                 tol = tolerance h
             in if div_rb h \<noteq> None \<or> abs dx > tol \<or> abs dy > tol then
                  (let h1 = (if div_rb h = None
                             then (let (d, h') = createShape h in h'\<lparr> div_rb := Some d \<rparr>)
                             else h);
                       h2 = clearSelection h1;
                       h3 = update (x_pt q) (y_pt q) h2
                   in (consume True e, h3))
                else (e, h)))
      else (e, h))"

definition isActive :: "rubberband \<Rightarrow> bool" where
  "isActive h =
     (case div_rb h of None \<Rightarrow> False | Some d \<Rightarrow> style_display (elems h d) \<noteq> Text ''none'')"

definition execute :: "native_event \<Rightarrow> rubberband \<Rightarrow> rubberband" where
  "execute ev h =
     h\<lparr> selectCalls :=
          selectCalls h @ [(Rectangle (x_rb h) (y_rb h) (width_rb h) (height_rb h), ev)] \<rparr>"

text \<open>The timer of \<^verbatim>\<open>window.setTimeout(..., 200)\<close> is kept as a pending removal of the
  element it closes over.\<close>

definition reset :: "rubberband \<Rightarrow> rubberband" where
  "reset h =
     (let h1 = (case div_rb h of
                  None \<Rightarrow> h
                | Some temp \<Rightarrow>
                   if fadeOut h
                   then h\<lparr> elems := (elems h)(temp := (elems h temp)\<lparr>
                               style_opacity := Text ''0'',
                               style_transition := Text ''all 0.2s linear'',
                               style_pointerEvents := Text ''none'' \<rparr>),
                           timers := timers h @ [temp] \<rparr>
                   else removeElement temp h);
          h2 = h1\<lparr> docListeners :=
                    removeMouseListeners (onMouseMove h1) (onMouseUp h1) (docListeners h1) \<rparr>
      in h2\<lparr> onMouseMove := None, onMouseUp := None,
             currentX := 0, currentY := 0, origin := None, div_rb := None \<rparr>)"

definition mouseUp :: "mouse_event_ex \<Rightarrow> rubberband \<Rightarrow> mouse_event_ex \<times> rubberband" where
  "mouseUp e h =
     (let active = isActive h;
          h1 = reset h
      in if active then (consume True e, execute (getEvent e) h1) else (e, h1))"

definition onPan :: "rubberband \<Rightarrow> rubberband" where
  "onPan h = repaint h"

definition onGesture :: "rubberband \<Rightarrow> rubberband" where
  "onGesture h = (if origin h \<noteq> None then reset h else h)"

definition dispose :: "rubberband \<Rightarrow> rubberband" where
  "dispose h =
     (let h1 = h\<lparr> handlerRegistered := False \<rparr>;
          h2 = h1\<lparr> channels := channels h1 - {PanChannel} \<rparr>;
          h3 = h2\<lparr> channels := channels h2 - {GestureChannel} \<rparr>;
          h4 = h3\<lparr> channels := channels h3 - {MouseEventChannel} \<rparr>;
          h5 = reset h4
      in if sharedDiv h5 \<noteq> None then h5\<lparr> sharedDiv := None \<rparr> else h5)"


section \<open>Delivery of events\<close>

text \<open>\<^verbatim>\<open>createEvent\<close>, the local function of \<^verbatim>\<open>start\<close>: a new wrapper around the native
  event, not consumed and with no cell state, its graph coordinates taken from
  \<^verbatim>\<open>clientToGraph\<close>.\<close>

definition createEvent :: "native_event \<Rightarrow> rubberband \<Rightarrow> mouse_event_ex" where
  "createEvent n h =
     (let pt = clientToGraph h (clientX n) (clientY n)
      in \<lparr> evt = n, onCell = False, consumed = False, graphX = x_pt pt, graphY = y_pt pt \<rparr>)"

text \<open>A native event on the document reaches every closure that \<^verbatim>\<open>start\<close> attached
  there and that is still attached when its turn comes.\<close>

definition documentMouseMove :: "native_event \<Rightarrow> rubberband \<Rightarrow> rubberband" where
  "documentMouseMove n h =
     fold (\<lambda>l k. case l of
                   MoveListener i \<Rightarrow>
                     if l \<in> set (docListeners k) then snd (mouseMove (createEvent n k) k) else k
                 | UpListener i \<Rightarrow> k)
          (docListeners h) h"

definition documentMouseUp :: "native_event \<Rightarrow> rubberband \<Rightarrow> rubberband" where
  "documentMouseUp n h =
     fold (\<lambda>l k. case l of
                   MoveListener i \<Rightarrow> k
                 | UpListener i \<Rightarrow>
                     if l \<in> set (docListeners k) then snd (mouseUp (createEvent n k) k) else k)
          (docListeners h) h"

text \<open>Modelled from the spec: the event bus of the graph, defined outside the handler, with
  "subscription/unsubscription to named channels". A notification reaches the closure
  of the handler while the handler is subscribed to its channel.\<close>

definition fireMouseEvent ::
  "string \<Rightarrow> mouse_event_ex \<Rightarrow> rubberband \<Rightarrow> mouse_event_ex \<times> rubberband" where
  "fireMouseEvent eventName e h =
     (if MouseEventChannel \<in> channels h then onMouseEvent eventName e h else (e, h))"

definition firePan :: "rubberband \<Rightarrow> rubberband" where
  "firePan h = (if PanChannel \<in> channels h then onPan h else h)"

definition fireGesture :: "rubberband \<Rightarrow> rubberband" where
  "fireGesture h = (if GestureChannel \<in> channels h then onGesture h else h)"

text \<open>The oldest pending timer of a fade-out fires and removes its element.\<close>

definition fireTimeout :: "rubberband \<Rightarrow> rubberband" where
  "fireTimeout h =
     (case timers h of [] \<Rightarrow> h | temp # ts \<Rightarrow> removeElement temp (h\<lparr> timers := ts \<rparr>))"

text \<open>Everything that can happen to a handler after its construction: a call of a public
  method, a notification of the graph, a native event on the document, a timer, and the
  host changing the pan offset or the options.\<close>

datatype op =
    OpMouseDown mouse_event_ex
  | OpMouseEvent string mouse_event_ex
  | OpMouseMove mouse_event_ex
  | OpMouseUp mouse_event_ex
  | OpDocumentMove native_event
  | OpDocumentUp native_event
  | OpPanTo int int
  | OpGesture
  | OpReset
  | OpDispose
  | OpEnable
  | OpDisable
  | OpSetOptions bool bool
  | OpConfig
  | OpTimeout

fun step :: "op \<Rightarrow> rubberband \<Rightarrow> rubberband" where
  "step (OpMouseDown e) h = snd (mouseDown e h)"
| "step (OpMouseEvent name e) h = snd (fireMouseEvent name e h)"
| "step (OpMouseMove e) h = snd (mouseMove e h)"
| "step (OpMouseUp e) h = snd (mouseUp e h)"
| "step (OpDocumentMove n) h = documentMouseMove n h"
| "step (OpDocumentUp n) h = documentMouseUp n h"
| "step (OpPanTo x y) h = firePan (h\<lparr> panX := x, panY := y \<rparr>)"
| "step OpGesture h = fireGesture h"
| "step OpReset h = reset h"
| "step OpDispose h = dispose h"
| "step OpEnable h = enable h"
| "step OpDisable h = disable h"
| "step (OpSetOptions en fo) h = h\<lparr> options_enabled := en, options_fadeOut := fo \<rparr>"
| "step OpConfig h = config h"
| "step OpTimeout h = fireTimeout h"

definition run :: "op list \<Rightarrow> rubberband \<Rightarrow> rubberband" where
  "run ops h = fold step ops h"

section \<open>The drag state of the specification\<close>

text \<open>The specification reads a state machine off the two fields: "Idle = no origin
  set. Armed = origin set, overlay not yet created. Dragging = overlay created and
  visible". Whether the overlay is visible is no field of the handler: the release
  tests it by itself, in \<^verbatim>\<open>isActive\<close>, and the state here is read off the two
  references alone.\<close>

datatype drag_state = Idle | Armed | Dragging

definition drag_state :: "rubberband \<Rightarrow> drag_state" where
  "drag_state h =
     (if origin h = None then Idle else if div_rb h = None then Armed else Dragging)"

text \<open>The overlay is only held while an origin is.\<close>

definition overlay_has_origin :: "rubberband \<Rightarrow> bool" where
  "overlay_has_origin h = (div_rb h \<noteq> None \<longrightarrow> origin h \<noteq> None)"

text \<open>A move stays within the tolerance of the graph, seen from the origin \<open>p\<close>.\<close>

definition withinTolerance :: "point \<Rightarrow> mouse_event_ex \<Rightarrow> rubberband \<Rightarrow> bool" where
  "withinTolerance p e h =
     (abs (x_pt p - x_pt (getPosition e h)) \<le> tolerance h \<and>
      abs (y_pt p - y_pt (getPosition e h)) \<le> tolerance h)"

definition moves :: "mouse_event_ex list \<Rightarrow> rubberband \<Rightarrow> rubberband" where
  "moves es h = fold (\<lambda>e k. snd (mouseMove e k)) es h"

text \<open>Every element that the container, a timer or the handler refers to has been made
  by \<^verbatim>\<open>document.createElement\<close> before.\<close>

definition ids_allocated :: "rubberband \<Rightarrow> bool" where
  "ids_allocated h =
     ((\<forall>d\<in>set (children h) \<union> set (timers h). d < nextElem h) \<and>
      (\<forall>d. sharedDiv h = Some d \<or> div_rb h = Some d \<longrightarrow> d < nextElem h))"

text \<open>Between a state \<open>h0\<close> and a later state \<open>h\<close> the mode is the same; under fade-out
  a shared reference that was null is null, and without fade-out a shared overlay that
  was held is held.\<close>

definition shared_follows :: "rubberband \<Rightarrow> rubberband \<Rightarrow> bool" where
  "shared_follows h0 h =
     (fadeOut h = fadeOut h0 \<and>
      (fadeOut h0 \<and> sharedDiv h0 = None \<longrightarrow> sharedDiv h = None) \<and>
      (\<not> fadeOut h0 \<longrightarrow> (\<forall>d. sharedDiv h0 = Some d \<longrightarrow> sharedDiv h = Some d)))"




section \<open>An example environment\<close>

text \<open>A graph with tolerance 4 and no pan, its container at the page origin, and pointer
  events at given client coordinates; the scenarios of the specification run on it.\<close>

definition graph0 :: graph_env where
  "graph0 =
     \<lparr> options_enabled = True, options_fadeOut = False,
       panX = 0, panY = 0, tolerance = 4, prefixCls = ''x6'',
       getRubberbandStyle = (\<lambda>x y w h.
          \<lparr> rs_className = [], rs_opacity = ''0.2'', rs_border = ''1px solid'',
            rs_background = ''blue'' \<rparr>),
       clientToGraph = (\<lambda>x y. \<lparr> x_pt = x, y_pt = y \<rparr>),
       channels = {}, handlerRegistered = True, selectCalls = [],
       scrollOrigin = \<lparr> x_pt = 0, y_pt = 0 \<rparr>, containerOffset = \<lparr> x_pt = 0, y_pt = 0 \<rparr>,
       children = [], elems = (\<lambda>d. new_css), nextElem = 0,
       docListeners = [], nextListener = 0, timers = [],
       IS_FIREFOX = False, textSelection = True \<rparr>"

definition native :: "nat \<Rightarrow> int \<Rightarrow> int \<Rightarrow> native_event" where
  "native i x y =
     \<lparr> ev_id = i, clientX = x, clientY = y, altKey = False, multiTouch = False,
       defaultPrevented = False \<rparr>"

definition pointer :: "nat \<Rightarrow> int \<Rightarrow> int \<Rightarrow> mouse_event_ex" where
  "pointer i x y =
     \<lparr> evt = native i x y, onCell = False, consumed = False, graphX = x, graphY = y \<rparr>"


definition armed0 :: rubberband where
  "armed0 = run [OpMouseDown (pointer 1 10 10)] (constructor graph0)"

definition dragging0 :: rubberband where
  "dragging0 = run [OpMouseDown (pointer 1 10 10), OpMouseMove (pointer 2 50 40)] (constructor graph0)"

definition flat0 :: rubberband where
  "flat0 = run [OpMouseDown (pointer 1 10 10), OpMouseMove (pointer 2 50 10)] (constructor graph0)"

text \<open>The same drag with fade-out switched on in the options of the graph.\<close>

definition fading_armed0 :: rubberband where
  "fading_armed0 = run [OpMouseDown (pointer 1 10 10)]
                     (constructor (graph0\<lparr> options_fadeOut := True \<rparr>))"

definition fading0 :: rubberband where
  "fading0 = run [OpMouseDown (pointer 1 10 10), OpMouseMove (pointer 2 50 40)]
               (constructor (graph0\<lparr> options_fadeOut := True \<rparr>))"

text \<open>A pointer-down with the Alt key held that fails every gate of \<^verbatim>\<open>mouseDown\<close>: it is
  consumed already, lies on a cell and is a multi-touch event.\<close>

definition forced :: mouse_event_ex where
  "forced =
     \<lparr> evt = (native 7 20 30)\<lparr> altKey := True, multiTouch := True \<rparr>,
       onCell = True, consumed = True, graphX = 20, graphY = 30 \<rparr>"

text \<open>The first drag released and a second pointer-down at (20, 20): without fade-out,
  with fade-out, and with fade-out switched on and the configuration re-read between the
  two drags.\<close>

definition second0 :: rubberband where
  "second0 = run [OpMouseUp (pointer 3 50 40), OpMouseDown (pointer 4 20 20)] dragging0"

definition second_fading0 :: rubberband where
  "second_fading0 = run [OpMouseUp (pointer 3 50 40), OpMouseDown (pointer 4 20 20)] fading0"

definition toggled0 :: rubberband where
  "toggled0 =
     run [OpMouseUp (pointer 3 50 40), OpSetOptions True True, OpConfig,
          OpMouseDown (pointer 4 20 20)] dragging0"



text \<open>A second pointer-down at (20, 20) during the drag with fade-out, before any
  release.\<close>

definition fading_rearmed0 :: rubberband where
  "fading_rearmed0 = run [OpMouseDown (pointer 3 20 20)] fading0"

section \<open>Facts about the operations\<close>

lemmas eval_defs = run_def mouseDown_def mouseMove_def mouseUp_def prepare_def start_def
  createShape_def createElement_def appendChild_def removeElement_def clearSelection_def
  update_def repaint_def reset_def execute_def isActive_def isValid_def isOnCell_def
  isMultiTouchEvent_def isConsumed_def getEvent_def getClientX_def getClientY_def consume_def
  getPosition_def pointer_def native_def new_css_def removeMouseListeners_def
  removeListener_def addMouseListeners_def Let_def

text \<open>The example states, computed.\<close>

lemma constructor_graph0:
  "constructor graph0 =
     \<lparr> options_enabled = True, options_fadeOut = False, panX = 0, panY = 0, tolerance = 4,
       prefixCls = ''x6'',
       getRubberbandStyle = (\<lambda>x y w h.
          \<lparr> rs_className = [], rs_opacity = ''0.2'', rs_border = ''1px solid'',
            rs_background = ''blue'' \<rparr>),
       clientToGraph = (\<lambda>x y. \<lparr> x_pt = x, y_pt = y \<rparr>),
       channels = {MouseEventChannel, PanChannel, GestureChannel},
       handlerRegistered = True, selectCalls = [],
       scrollOrigin = \<lparr> x_pt = 0, y_pt = 0 \<rparr>,
       containerOffset = \<lparr> x_pt = 0, y_pt = 0 \<rparr>, children = [],
       elems = (\<lambda>d. new_css), nextElem = 0, docListeners = [], nextListener = 0,
       timers = [], IS_FIREFOX = False, textSelection = True, enabled = True,
       fadeOut = False, div_rb = None, sharedDiv = None, onMouseMove = None,
       onMouseUp = None, origin = None, currentX = 0, currentY = 0, x_rb = None,
       y_rb = None, width_rb = None, height_rb = None \<rparr>"
  by (simp add: constructor_def config_def graph0_def graph_env.defs rubberband.defs Let_def)

lemma armed0_eq:
  "armed0 =
     \<lparr> options_enabled = True, options_fadeOut = False, panX = 0, panY = 0, tolerance = 4,
       prefixCls = ''x6'',
       getRubberbandStyle = (\<lambda>x y w h.
          \<lparr> rs_className = [], rs_opacity = ''0.2'', rs_border = ''1px solid'',
            rs_background = ''blue'' \<rparr>),
       clientToGraph = (\<lambda>x y. \<lparr> x_pt = x, y_pt = y \<rparr>),
       channels = {MouseEventChannel, PanChannel, GestureChannel},
       handlerRegistered = True, selectCalls = [],
       scrollOrigin = \<lparr> x_pt = 0, y_pt = 0 \<rparr>,
       containerOffset = \<lparr> x_pt = 0, y_pt = 0 \<rparr>, children = [],
       elems = (\<lambda>d. new_css), nextElem = 0, docListeners = [], nextListener = 1,
       timers = [], IS_FIREFOX = False, textSelection = True, enabled = True,
       fadeOut = False, div_rb = None, sharedDiv = None,
       onMouseMove = Some (MoveListener 0), onMouseUp = Some (UpListener 0),
       origin = Some \<lparr> x_pt = 10, y_pt = 10 \<rparr>, currentX = 0, currentY = 0,
       x_rb = None, y_rb = None, width_rb = None, height_rb = None \<rparr>"
  by (simp add: armed0_def constructor_graph0 eval_defs)

lemma dragging0_eq:
  "dragging0 =
     \<lparr> options_enabled = True, options_fadeOut = False, panX = 0, panY = 0, tolerance = 4,
       prefixCls = ''x6'',
       getRubberbandStyle = (\<lambda>x y w h.
          \<lparr> rs_className = [], rs_opacity = ''0.2'', rs_border = ''1px solid'',
            rs_background = ''blue'' \<rparr>),
       clientToGraph = (\<lambda>x y. \<lparr> x_pt = x, y_pt = y \<rparr>),
       channels = {MouseEventChannel, PanChannel, GestureChannel},
       handlerRegistered = True, selectCalls = [],
       scrollOrigin = \<lparr> x_pt = 0, y_pt = 0 \<rparr>,
       containerOffset = \<lparr> x_pt = 0, y_pt = 0 \<rparr>, children = [0],
       elems = ((\<lambda>d. new_css)(0 := \<lparr> className = Some (''x6'', ''rubberband'', []),
          style_opacity = Text ''0.2'', style_border = Text ''1px solid'',
          style_background = Text ''blue'', style_position = Text ''absolute'',
          style_left = Px 10, style_top = Px 10, style_width = Px 40, style_height = Px 30,
          style_transition = Unset, style_pointerEvents = Unset, style_display = Unset \<rparr>)),
       nextElem = 1, docListeners = [], nextListener = 1, timers = [], IS_FIREFOX = False,
       textSelection = False, enabled = True, fadeOut = False, div_rb = Some 0,
       sharedDiv = Some 0, onMouseMove = Some (MoveListener 0),
       onMouseUp = Some (UpListener 0),
       origin = Some \<lparr> x_pt = 10, y_pt = 10 \<rparr>, currentX = 50, currentY = 40,
       x_rb = Some 10, y_rb = Some 10, width_rb = Some 40, height_rb = Some 30 \<rparr>"
  by (simp add: dragging0_def constructor_graph0 eval_defs)

lemma flat0_eq:
  "flat0 =
     \<lparr> options_enabled = True, options_fadeOut = False, panX = 0, panY = 0, tolerance = 4,
       prefixCls = ''x6'',
       getRubberbandStyle = (\<lambda>x y w h.
          \<lparr> rs_className = [], rs_opacity = ''0.2'', rs_border = ''1px solid'',
            rs_background = ''blue'' \<rparr>),
       clientToGraph = (\<lambda>x y. \<lparr> x_pt = x, y_pt = y \<rparr>),
       channels = {MouseEventChannel, PanChannel, GestureChannel},
       handlerRegistered = True, selectCalls = [],
       scrollOrigin = \<lparr> x_pt = 0, y_pt = 0 \<rparr>,
       containerOffset = \<lparr> x_pt = 0, y_pt = 0 \<rparr>, children = [0],
       elems = ((\<lambda>d. new_css)(0 := \<lparr> className = Some (''x6'', ''rubberband'', []),
          style_opacity = Text ''0.2'', style_border = Text ''1px solid'',
          style_background = Text ''blue'', style_position = Text ''absolute'',
          style_left = Px 10, style_top = Px 10, style_width = Px 40, style_height = Px 1,
          style_transition = Unset, style_pointerEvents = Unset, style_display = Unset \<rparr>)),
       nextElem = 1, docListeners = [], nextListener = 1, timers = [], IS_FIREFOX = False,
       textSelection = False, enabled = True, fadeOut = False, div_rb = Some 0,
       sharedDiv = Some 0, onMouseMove = Some (MoveListener 0),
       onMouseUp = Some (UpListener 0),
       origin = Some \<lparr> x_pt = 10, y_pt = 10 \<rparr>, currentX = 50, currentY = 10,
       x_rb = Some 10, y_rb = Some 10, width_rb = Some 40, height_rb = Some 0 \<rparr>"
  by (simp add: flat0_def constructor_graph0 eval_defs)

lemma armed0_facts:
  "origin armed0 = Some \<lparr> x_pt = 10, y_pt = 10 \<rparr>" "div_rb armed0 = None"
  "sharedDiv armed0 = None" "selectCalls armed0 = []" "nextElem armed0 = 0"
  "children armed0 = []" "\<not> isActive armed0" "\<not> fadeOut armed0" "tolerance armed0 = 4"
  "onMouseMove armed0 = Some (MoveListener 0)" "onMouseUp armed0 = Some (UpListener 0)"
  "docListeners armed0 = []" "enabled armed0"
  "channels armed0 = {MouseEventChannel, PanChannel, GestureChannel}"
  by (simp_all add: armed0_eq isActive_def)

lemma dragging0_facts:
  "origin dragging0 = Some \<lparr> x_pt = 10, y_pt = 10 \<rparr>" "div_rb dragging0 = Some 0"
  "sharedDiv dragging0 = Some 0" "selectCalls dragging0 = []" "nextElem dragging0 = 1"
  "children dragging0 = [0]" "isActive dragging0" "\<not> fadeOut dragging0"
  "currentX dragging0 = 50" "currentY dragging0 = 40" "panX dragging0 = 0" "panY dragging0 = 0"
  "x_rb dragging0 = Some 10" "y_rb dragging0 = Some 10"
  "width_rb dragging0 = Some 40" "height_rb dragging0 = Some 30"
  "timers dragging0 = []" "tolerance dragging0 = 4" "enabled dragging0"
  "onMouseMove dragging0 = Some (MoveListener 0)" "onMouseUp dragging0 = Some (UpListener 0)"
  "docListeners dragging0 = []"
  "channels dragging0 = {MouseEventChannel, PanChannel, GestureChannel}"
  by (simp_all add: dragging0_eq isActive_def)

lemma flat0_facts:
  "origin flat0 = Some \<lparr> x_pt = 10, y_pt = 10 \<rparr>" "div_rb flat0 = Some 0"
  "currentX flat0 = 50" "currentY flat0 = 10" "panX flat0 = 0" "panY flat0 = 0"
  by (simp_all add: flat0_eq)

lemma fading0_eq:
  "fading0 =
     \<lparr> options_enabled = True, options_fadeOut = True, panX = 0, panY = 0, tolerance = 4,
       prefixCls = ''x6'',
       getRubberbandStyle = (\<lambda>x y w h.
          \<lparr> rs_className = [], rs_opacity = ''0.2'', rs_border = ''1px solid'',
            rs_background = ''blue'' \<rparr>),
       clientToGraph = (\<lambda>x y. \<lparr> x_pt = x, y_pt = y \<rparr>),
       channels = {MouseEventChannel, PanChannel, GestureChannel},
       handlerRegistered = True, selectCalls = [],
       scrollOrigin = \<lparr> x_pt = 0, y_pt = 0 \<rparr>,
       containerOffset = \<lparr> x_pt = 0, y_pt = 0 \<rparr>, children = [0],
       elems = ((\<lambda>d. new_css)(0 := \<lparr> className = Some (''x6'', ''rubberband'', []),
          style_opacity = Text ''0.2'', style_border = Text ''1px solid'',
          style_background = Text ''blue'', style_position = Text ''absolute'',
          style_left = Px 10, style_top = Px 10, style_width = Px 40, style_height = Px 30,
          style_transition = Unset, style_pointerEvents = Unset, style_display = Unset \<rparr>)),
       nextElem = 1, docListeners = [], nextListener = 1, timers = [], IS_FIREFOX = False,
       textSelection = False, enabled = True, fadeOut = True, div_rb = Some 0,
       sharedDiv = None, onMouseMove = Some (MoveListener 0),
       onMouseUp = Some (UpListener 0),
       origin = Some \<lparr> x_pt = 10, y_pt = 10 \<rparr>, currentX = 50, currentY = 40,
       x_rb = Some 10, y_rb = Some 10, width_rb = Some 40, height_rb = Some 30 \<rparr>"
  by (simp add: fading0_def constructor_def config_def graph0_def graph_env.defs
      rubberband.defs eval_defs)

lemma fading0_facts:
  "origin fading0 = Some \<lparr> x_pt = 10, y_pt = 10 \<rparr>" "div_rb fading0 = Some 0"
  "sharedDiv fading0 = None" "selectCalls fading0 = []" "nextElem fading0 = 1"
  "children fading0 = [0]" "isActive fading0" "fadeOut fading0" "timers fading0 = []"
  "onMouseMove fading0 = Some (MoveListener 0)" "onMouseUp fading0 = Some (UpListener 0)"
  "docListeners fading0 = []" "tolerance fading0 = 4"
  by (simp_all add: fading0_eq isActive_def)

lemma forced_facts:
  "isForceRubberbandEvent forced" "altKey (getEvent forced)" "isConsumed forced"
  "isOnCell forced" "isMultiTouchEvent forced" "getClientX forced = 20" "getClientY forced = 30"
  "\<not> defaultPrevented (getEvent forced)"
  by (simp_all add: forced_def native_def getEvent_def isConsumed_def isOnCell_def
      isMultiTouchEvent_def isForceRubberbandEvent_def getClientX_def getClientY_def)

lemma pointer_facts:
  "evt (pointer i x y) = native i x y" "getEvent (pointer i x y) = native i x y"
  "\<not> isConsumed (pointer i x y)" "\<not> isOnCell (pointer i x y)"
  "\<not> isMultiTouchEvent (pointer i x y)" "\<not> isForceRubberbandEvent (pointer i x y)"
  "getClientX (pointer i x y) = x" "getClientY (pointer i x y) = y"
  by (simp_all add: pointer_def native_def getEvent_def isConsumed_def isOnCell_def
      isMultiTouchEvent_def isForceRubberbandEvent_def getClientX_def getClientY_def)

lemma selectCalls_reset: "selectCalls (reset h) = selectCalls h"
  by (simp add: reset_def Let_def removeElement_def split: option.splits)

lemma reset_cleared:
  "origin (reset h) = None" "div_rb (reset h) = None"
  "currentX (reset h) = 0" "currentY (reset h) = 0"
  "onMouseMove (reset h) = None" "onMouseUp (reset h) = None"
  by (simp_all add: reset_def Let_def)




text \<open>The stored rectangle is written by \<^verbatim>\<open>repaint\<close> alone; a reset leaves it as the last
  repaint made it.\<close>

lemma rect_reset:
  "x_rb (reset h) = x_rb h" "y_rb (reset h) = y_rb h"
  "width_rb (reset h) = width_rb h" "height_rb (reset h) = height_rb h"
  by (simp_all add: reset_def Let_def removeElement_def split: option.splits)

lemma reset_reset: "reset (reset h) = reset h"
  by (simp add: reset_def Let_def removeElement_def removeMouseListeners_def
      removeListener_def split: option.splits)

lemma reset_sharedDiv_update: "reset (h\<lparr> sharedDiv := v \<rparr>) = (reset h)\<lparr> sharedDiv := v \<rparr>"
  by (simp add: reset_def Let_def removeElement_def removeMouseListeners_def
      removeListener_def split: option.splits)

lemma reset_dispose: "reset (dispose h) = dispose h"
  by (simp add: dispose_def Let_def reset_sharedDiv_update reset_reset)

lemma selectCalls_dispose: "selectCalls (dispose h) = selectCalls h"
  by (simp add: dispose_def Let_def selectCalls_reset)

section \<open>The geometry of the rectangle\<close>

text \<open>
  Claim C2. On every repaint with the overlay and the origin both set, and with the
  current position less the pan offset as \<open>(cx, cy)\<close>, the stored rectangle has
  \<open>x = min (origin.x, cx)\<close>, \<open>y = min (origin.y, cy)\<close>,
  \<open>width = max (origin.x, cx) - x\<close> and \<open>height = max (origin.y, cy) - y\<close>; the overlay
  is placed at \<open>x\<close> and \<open>y\<close>, and its rendered width and height are the stored ones raised
  to at least 1, so that a stored width or height of zero is rendered as 1.
\<close>

theorem repaint_rectangle:
  assumes "div_rb h = Some d" and "origin h = Some p"
    and "cx = currentX h - panX h" and "cy = currentY h - panY h"
  shows "x_rb (repaint h) = Some (min (x_pt p) cx) \<and>
         y_rb (repaint h) = Some (min (y_pt p) cy) \<and>
         width_rb (repaint h) = Some (max (x_pt p) cx - min (x_pt p) cx) \<and>
         height_rb (repaint h) = Some (max (y_pt p) cy - min (y_pt p) cy) \<and>
         style_left (elems (repaint h) d) = Px (min (x_pt p) cx) \<and>
         style_top (elems (repaint h) d) = Px (min (y_pt p) cy) \<and>
         style_width (elems (repaint h) d) = Px (max 1 (max (x_pt p) cx - min (x_pt p) cx)) \<and>
         style_height (elems (repaint h) d) = Px (max 1 (max (y_pt p) cy - min (y_pt p) cy)) \<and>
         (x_pt p = cx \<longrightarrow>
            width_rb (repaint h) = Some 0 \<and> style_width (elems (repaint h) d) = Px 1) \<and>
         (y_pt p = cy \<longrightarrow>
            height_rb (repaint h) = Some 0 \<and> style_height (elems (repaint h) d) = Px 1)"
  using assms by (simp add: repaint_def Let_def)

text \<open>A drag from (10, 10) to (50, 10): the rectangle is 40 wide and 0 high, and is
  rendered 40 wide and 1 high.\<close>

theorem repaint_rectangle_witness:
  "div_rb flat0 = Some 0 \<and> origin flat0 = Some \<lparr> x_pt = 10, y_pt = 10 \<rparr> \<and>
   x_rb (repaint flat0) = Some 10 \<and> y_rb (repaint flat0) = Some 10 \<and>
   width_rb (repaint flat0) = Some 40 \<and> height_rb (repaint flat0) = Some 0 \<and>
   style_width (elems (repaint flat0) 0) = Px 40 \<and>
   style_height (elems (repaint flat0) 0) = Px 1"
proof -
  have d: "div_rb flat0 = Some 0" and p: "origin flat0 = Some \<lparr> x_pt = 10, y_pt = 10 \<rparr>"
    and cx: "50 = currentX flat0 - panX flat0" and cy: "10 = currentY flat0 - panY flat0"
    by (simp_all add: flat0_facts)
  from repaint_rectangle [OF d p cx cy] show ?thesis
    by (simp add: d p)
qed

section \<open>Release\<close>

text \<open>
  Claim C3. A release that arrives while the overlay exists and is not
  \<^verbatim>\<open>display: none\<close> calls \<^verbatim>\<open>selectCellsInRegion\<close> exactly once, with the stored
  rectangle of the last repaint and the native event of the release, marks the release
  consumed, and leaves origin and overlay cleared, the state Idle. A release at any other
  moment performs the reset, calls nothing and leaves its event as it was.
\<close>

theorem mouseUp_commit:
  "(isActive h \<longrightarrow>
      selectCalls (snd (mouseUp e h)) =
        selectCalls h @ [(Rectangle (x_rb h) (y_rb h) (width_rb h) (height_rb h), getEvent e)] \<and>
      isConsumed (fst (mouseUp e h)) \<and>
      snd (mouseUp e h) = execute (getEvent e) (reset h) \<and>
      origin (snd (mouseUp e h)) = None \<and> div_rb (snd (mouseUp e h)) = None \<and>
      drag_state (snd (mouseUp e h)) = Idle) \<and>
   (\<not> isActive h \<longrightarrow>
      mouseUp e h = (e, reset h) \<and> selectCalls (snd (mouseUp e h)) = selectCalls h \<and>
      origin (snd (mouseUp e h)) = None \<and> div_rb (snd (mouseUp e h)) = None)"
  by (simp add: mouseUp_def Let_def execute_def drag_state_def isConsumed_def consume_def
      reset_cleared selectCalls_reset rect_reset)

text \<open>The scenario of the specification: down at (10, 10), move to (50, 40), release.
  And a release with no overlay.\<close>

theorem mouseUp_commit_witness:
  "isActive dragging0 \<and>
   selectCalls (snd (mouseUp (pointer 3 50 40) dragging0)) =
     [(Rectangle (Some 10) (Some 10) (Some 40) (Some 30), native 3 50 40)] \<and>
   isConsumed (fst (mouseUp (pointer 3 50 40) dragging0)) \<and>
   drag_state (snd (mouseUp (pointer 3 50 40) dragging0)) = Idle \<and>
   \<not> isActive armed0 \<and>
   fst (mouseUp (pointer 3 11 11) armed0) = pointer 3 11 11 \<and>
   selectCalls (snd (mouseUp (pointer 3 11 11) armed0)) = []"
proof -
  have a: "isActive dragging0" and b: "\<not> isActive armed0"
    by (simp_all add: dragging0_facts armed0_facts)
  from mouseUp_commit [of dragging0 "pointer 3 50 40"] a
  have "selectCalls (snd (mouseUp (pointer 3 50 40) dragging0)) =
          selectCalls dragging0 @
          [(Rectangle (x_rb dragging0) (y_rb dragging0) (width_rb dragging0) (height_rb dragging0),
            getEvent (pointer 3 50 40))]"
    and "isConsumed (fst (mouseUp (pointer 3 50 40) dragging0))"
    and "drag_state (snd (mouseUp (pointer 3 50 40) dragging0)) = Idle"
    by blast+
  moreover from mouseUp_commit [of armed0 "pointer 3 11 11"] b
  have "mouseUp (pointer 3 11 11) armed0 = (pointer 3 11 11, reset armed0)"
    and "selectCalls (snd (mouseUp (pointer 3 11 11) armed0)) = selectCalls armed0"
    by blast+
  ultimately show ?thesis
    using a b by (simp add: dragging0_facts armed0_facts pointer_facts)
qed

section \<open>Pan and gesture notifications\<close>

text \<open>
  Claim C5. A pan notification only repaints: the origin, the overlay reference, the drag
  state and the recorded pointer position are as before, nothing but the stored rectangle
  and the inline style of the overlay element differs, and with the overlay or the origin
  null the notification changes nothing at all.
\<close>

theorem onPan_frame:
  "onPan h = repaint h \<and>
   origin (onPan h) = origin h \<and> div_rb (onPan h) = div_rb h \<and>
   drag_state (onPan h) = drag_state h \<and>
   currentX (onPan h) = currentX h \<and> currentY (onPan h) = currentY h \<and>
   onPan h = h\<lparr> elems := elems (onPan h), x_rb := x_rb (onPan h), y_rb := y_rb (onPan h),
                width_rb := width_rb (onPan h), height_rb := height_rb (onPan h) \<rparr> \<and>
   (\<forall>d. div_rb h \<noteq> Some d \<longrightarrow> elems (onPan h) d = elems h d) \<and>
   (div_rb h = None \<or> origin h = None \<longrightarrow> onPan h = h)"
  by (auto simp add: onPan_def repaint_def Let_def drag_state_def split: option.splits)

text \<open>The graph pans to (5, -5) during the drag from (10, 10) to (50, 40); and it pans
  while the handler is only armed.\<close>

theorem onPan_frame_witness:
  "origin (onPan (dragging0\<lparr> panX := 5, panY := - 5 \<rparr>)) = Some \<lparr> x_pt = 10, y_pt = 10 \<rparr> \<and>
   div_rb (onPan (dragging0\<lparr> panX := 5, panY := - 5 \<rparr>)) = Some 0 \<and>
   drag_state (onPan (dragging0\<lparr> panX := 5, panY := - 5 \<rparr>)) = Dragging \<and>
   currentX (onPan (dragging0\<lparr> panX := 5, panY := - 5 \<rparr>)) = 50 \<and>
   currentY (onPan (dragging0\<lparr> panX := 5, panY := - 5 \<rparr>)) = 40 \<and>
   elems (onPan (dragging0\<lparr> panX := 5, panY := - 5 \<rparr>)) 1 = new_css \<and>
   div_rb armed0 = None \<and> onPan (armed0\<lparr> panX := 5, panY := - 5 \<rparr>) = armed0\<lparr> panX := 5, panY := - 5 \<rparr>"
proof -
  let ?h = "dragging0\<lparr> panX := 5, panY := - 5 \<rparr>"
  let ?a = "armed0\<lparr> panX := 5, panY := - 5 \<rparr>"
  have other: "div_rb ?h \<noteq> Some 1" and none: "div_rb ?a = None \<or> origin ?a = None"
    by (simp_all add: dragging0_facts armed0_facts)
  from onPan_frame [of ?h] other
  have "origin (onPan ?h) = origin ?h" and "div_rb (onPan ?h) = div_rb ?h"
    and "drag_state (onPan ?h) = drag_state ?h"
    and "currentX (onPan ?h) = currentX ?h" and "currentY (onPan ?h) = currentY ?h"
    and "elems (onPan ?h) 1 = elems ?h 1"
    by blast+
  moreover from onPan_frame [of ?a] none have "onPan ?a = ?a"
    by blast
  ultimately show ?thesis
    by (simp add: dragging0_facts armed0_facts drag_state_def dragging0_eq)
qed


section \<open>Reset\<close>

text \<open>
  Claim C7. Reset is idempotent: a second reset right after a first, or a reset right
  after dispose, leaves the handler and its environment exactly as the first call left
  them, and neither call adds a call of \<^verbatim>\<open>selectCellsInRegion\<close>. Every operation of the
  model is a total function, and the detaching of listeners and the removal of the overlay
  are defined on null and on absent arguments as well, so there is no case in which a
  repeated reset could fail.
\<close>

theorem reset_idempotent:
  "reset (reset h) = reset h \<and>
   selectCalls (reset h) = selectCalls h \<and>
   selectCalls (reset (reset h)) = selectCalls h \<and>
   reset (dispose h) = dispose h \<and>
   selectCalls (reset (dispose h)) = selectCalls h"
  by (simp add: reset_reset reset_dispose selectCalls_reset selectCalls_dispose)

section \<open>Pointer-down\<close>

text \<open>
  Claim C9. An accepted pointer-down, on the normal path (\<^verbatim>\<open>mouseDown\<close> with every gate
  passed) as on the force path (the \<^verbatim>\<open>mouseEvent\<close> subscription with the Alt key held),
  runs \<^verbatim>\<open>prepare\<close>, whose only action on the event is \<^verbatim>\<open>consume(false)\<close>: the default
  handling of the native event is prevented after the call exactly if it was before, while
  the drag is armed.
\<close>

theorem prepare_keeps_default:
  "(isValid h e \<and> \<not> isOnCell e \<and> \<not> isMultiTouchEvent e \<longrightarrow> mouseDown e h = prepare e h) \<and>
   (MouseEventChannel \<in> channels h \<and> isForceRubberbandEvent e \<longrightarrow>
      fireMouseEvent ''mouseDown'' e h = prepare e h) \<and>
   fst (prepare e h) = consume False e \<and>
   defaultPrevented (getEvent (fst (prepare e h))) = defaultPrevented (getEvent e) \<and>
   origin (snd (prepare e h)) = Some (getPosition e h)"
  by (simp add: mouseDown_def fireMouseEvent_def onMouseEvent_def prepare_def Let_def
      consume_def getEvent_def start_def)

text \<open>A plain pointer-down on the empty canvas, and a forced one.\<close>

theorem prepare_keeps_default_witness:
  "isValid (constructor graph0) (pointer 1 10 10) \<and>
   \<not> defaultPrevented (getEvent (fst (mouseDown (pointer 1 10 10) (constructor graph0)))) \<and>
   origin (snd (mouseDown (pointer 1 10 10) (constructor graph0))) =
     Some \<lparr> x_pt = 10, y_pt = 10 \<rparr> \<and>
   MouseEventChannel \<in> channels (constructor graph0) \<and> isForceRubberbandEvent forced \<and>
   \<not> defaultPrevented (getEvent (fst (fireMouseEvent ''mouseDown'' forced (constructor graph0)))) \<and>
   origin (snd (fireMouseEvent ''mouseDown'' forced (constructor graph0))) =
     Some \<lparr> x_pt = 20, y_pt = 30 \<rparr>"
proof -
  let ?h = "constructor graph0"
  have a: "isValid ?h (pointer 1 10 10) \<and> \<not> isOnCell (pointer 1 10 10) \<and>
           \<not> isMultiTouchEvent (pointer 1 10 10)"
    and b: "MouseEventChannel \<in> channels ?h \<and> isForceRubberbandEvent forced"
    by (simp_all add: isValid_def pointer_facts forced_facts constructor_graph0)
  from prepare_keeps_default [of ?h "pointer 1 10 10"] a
  have "mouseDown (pointer 1 10 10) ?h = prepare (pointer 1 10 10) ?h"
    and "defaultPrevented (getEvent (fst (prepare (pointer 1 10 10) ?h))) =
         defaultPrevented (getEvent (pointer 1 10 10))"
    and "origin (snd (prepare (pointer 1 10 10) ?h)) = Some (getPosition (pointer 1 10 10) ?h)"
    by blast+
  moreover from prepare_keeps_default [of ?h forced] b
  have "fireMouseEvent ''mouseDown'' forced ?h = prepare forced ?h"
    and "defaultPrevented (getEvent (fst (prepare forced ?h))) =
         defaultPrevented (getEvent forced)"
    and "origin (snd (prepare forced ?h)) = Some (getPosition forced ?h)"
    by blast+
  moreover have "getPosition (pointer 1 10 10) ?h = \<lparr> x_pt = 10, y_pt = 10 \<rparr>"
    and "getPosition forced ?h = \<lparr> x_pt = 20, y_pt = 30 \<rparr>"
    by (simp_all add: getPosition_def pointer_facts forced_facts constructor_graph0)
  ultimately show ?thesis
    using a b by (simp add: pointer_facts forced_facts native_def)
qed

text \<open>
  Claim C10. The constructor subscribes the handler to the \<^verbatim>\<open>mouseEvent\<close> channel, and
  while it is subscribed every \<^verbatim>\<open>mouseDown\<close> notification with the Alt key held runs
  \<^verbatim>\<open>prepare\<close>: the origin is the position of the event and the two listeners of the
  drag are set. Nothing is assumed of the handler being enabled, of the event being
  consumed, of a cell under the pointer or of a multi-touch event, which are the gates
  that make \<^verbatim>\<open>mouseDown\<close> ignore an event.
\<close>

theorem force_rubberband_arms:
  "MouseEventChannel \<in> channels (constructor g) \<and>
   (MouseEventChannel \<in> channels h \<and> altKey (getEvent e) \<longrightarrow>
      fireMouseEvent ''mouseDown'' e h = prepare e h \<and>
      origin (snd (fireMouseEvent ''mouseDown'' e h)) = Some (getPosition e h) \<and>
      onMouseMove (snd (fireMouseEvent ''mouseDown'' e h)) = Some (MoveListener (nextListener h)) \<and>
      onMouseUp (snd (fireMouseEvent ''mouseDown'' e h)) = Some (UpListener (nextListener h)) \<and>
      drag_state (snd (fireMouseEvent ''mouseDown'' e h)) \<noteq> Idle) \<and>
   (\<not> isValid h e \<or> isOnCell e \<or> isMultiTouchEvent e \<longrightarrow> mouseDown e h = (e, h))"
  by (auto simp add: fireMouseEvent_def onMouseEvent_def isForceRubberbandEvent_def prepare_def
      Let_def start_def drag_state_def constructor_def config_def mouseDown_def)

text \<open>The handler is disabled and the event fails every gate: \<^verbatim>\<open>mouseDown\<close> ignores it,
  the subscription arms the drag.\<close>

theorem force_rubberband_arms_witness:
  "MouseEventChannel \<in> channels (disable (constructor graph0)) \<and> altKey (getEvent forced) \<and>
   \<not> enabled (disable (constructor graph0)) \<and> \<not> isValid (disable (constructor graph0)) forced \<and>
   isConsumed forced \<and> isOnCell forced \<and>
   isMultiTouchEvent forced \<and>
   origin (disable (constructor graph0)) = None \<and>
   origin (snd (fireMouseEvent ''mouseDown'' forced (disable (constructor graph0)))) =
     Some \<lparr> x_pt = 20, y_pt = 30 \<rparr> \<and>
   drag_state (snd (fireMouseEvent ''mouseDown'' forced (disable (constructor graph0)))) \<noteq> Idle \<and>
   mouseDown forced (disable (constructor graph0)) = (forced, disable (constructor graph0))"
proof -
  let ?h = "disable (constructor graph0)"
  have a: "MouseEventChannel \<in> channels ?h \<and> altKey (getEvent forced)"
    and b: "\<not> enabled ?h" "\<not> isValid ?h forced" and c: "origin ?h = None"
    by (simp_all add: disable_def forced_facts constructor_graph0 isValid_def)
  from force_rubberband_arms [of graph0 ?h forced] a b
  have "origin (snd (fireMouseEvent ''mouseDown'' forced ?h)) = Some (getPosition forced ?h)"
    and "drag_state (snd (fireMouseEvent ''mouseDown'' forced ?h)) \<noteq> Idle"
    and "mouseDown forced ?h = (forced, ?h)"
    by blast+
  moreover have "getPosition forced ?h = \<lparr> x_pt = 20, y_pt = 30 \<rparr>"
    by (simp add: getPosition_def forced_facts disable_def constructor_graph0)
  ultimately show ?thesis
    using a b c by (simp add: forced_facts)
qed

section \<open>The state invariant\<close>

lemma repaint_keeps:
  "origin (repaint h) = origin h" "div_rb (repaint h) = div_rb h"
  "sharedDiv (repaint h) = sharedDiv h" "fadeOut (repaint h) = fadeOut h"
  "nextElem (repaint h) = nextElem h" "selectCalls (repaint h) = selectCalls h"
  "children (repaint h) = children h"
  by (simp_all add: repaint_def Let_def split: option.splits)

lemma createShape_keeps:
  "origin (snd (createShape h)) = origin h" "div_rb (snd (createShape h)) = div_rb h"
  "fadeOut (snd (createShape h)) = fadeOut h"
  "selectCalls (snd (createShape h)) = selectCalls h"
  by (simp_all add: createShape_def createElement_def appendChild_def Let_def
      split: option.splits prod.splits)

lemma start_keeps:
  "origin (start x y h) = Some \<lparr> x_pt = x, y_pt = y \<rparr>" "div_rb (start x y h) = div_rb h"
  "sharedDiv (start x y h) = sharedDiv h" "fadeOut (start x y h) = fadeOut h"
  "nextElem (start x y h) = nextElem h" "selectCalls (start x y h) = selectCalls h"
  "children (start x y h) = children h"
  by (simp_all add: start_def Let_def)

lemma mouseMove_origin: "origin (snd (mouseMove e h)) = origin h"
  by (simp add: mouseMove_def Let_def update_def clearSelection_def repaint_keeps
      createShape_keeps split_def split: option.splits)

lemma mouseMove_inv: "overlay_has_origin h \<Longrightarrow> overlay_has_origin (snd (mouseMove e h))"
  unfolding overlay_has_origin_def mouseMove_origin
  by (simp add: mouseMove_def Let_def split_def split: option.splits)

lemma mouseDown_inv: "overlay_has_origin h \<Longrightarrow> overlay_has_origin (snd (mouseDown e h))"
  by (simp add: overlay_has_origin_def mouseDown_def prepare_def Let_def start_keeps)

lemma onMouseEvent_inv: "overlay_has_origin h \<Longrightarrow> overlay_has_origin (snd (fireMouseEvent n e h))"
  by (simp add: overlay_has_origin_def fireMouseEvent_def onMouseEvent_def prepare_def Let_def start_keeps)

lemma reset_inv: "overlay_has_origin (reset h)"
  by (simp add: overlay_has_origin_def reset_cleared)

lemma mouseUp_inv: "overlay_has_origin (snd (mouseUp e h))"
  by (simp add: overlay_has_origin_def mouseUp_def Let_def execute_def reset_cleared)

lemma dispose_inv: "overlay_has_origin (dispose h)"
  by (simp add: overlay_has_origin_def dispose_def Let_def reset_cleared)

lemma fold_listeners_inv:
  assumes "\<And>l k. P k \<Longrightarrow> P (f l k)"
  shows "P h \<Longrightarrow> P (fold f ls h)"
  using assms by (induction ls arbitrary: h) simp_all

lemma documentMouseMove_inv:
  "overlay_has_origin h \<Longrightarrow> overlay_has_origin (documentMouseMove n h)"
  unfolding documentMouseMove_def
  by (rule fold_listeners_inv) (simp_all add: mouseMove_inv split: listener.splits)

lemma documentMouseUp_inv:
  "overlay_has_origin h \<Longrightarrow> overlay_has_origin (documentMouseUp n h)"
  unfolding documentMouseUp_def
  by (rule fold_listeners_inv) (simp_all add: mouseUp_inv split: listener.splits)

lemma step_inv:
  assumes "overlay_has_origin h"
  shows "overlay_has_origin (step a h)"
proof (cases a)
  case (OpPanTo x y)
  with assms show ?thesis
    by (simp add: firePan_def onPan_def overlay_has_origin_def repaint_keeps)
next
  case OpGesture
  with assms show ?thesis
    by (simp add: fireGesture_def onGesture_def reset_inv)
next
  case OpTimeout
  with assms show ?thesis
    by (simp add: fireTimeout_def removeElement_def overlay_has_origin_def split: list.splits)
next
  case OpEnable
  with assms show ?thesis
    by (simp add: enable_def overlay_has_origin_def)
next
  case OpDisable
  with assms show ?thesis
    by (simp add: disable_def overlay_has_origin_def)
next
  case (OpSetOptions en fo)
  with assms show ?thesis
    by (simp add: overlay_has_origin_def)
next
  case OpConfig
  with assms show ?thesis
    by (simp add: config_def overlay_has_origin_def)
qed (simp_all add: assms mouseDown_inv onMouseEvent_inv mouseMove_inv mouseUp_inv
      documentMouseMove_inv documentMouseUp_inv reset_inv dispose_inv)

lemma constructor_inv: "overlay_has_origin (constructor g)"
  by (simp add: overlay_has_origin_def constructor_def config_def Let_def graph_env.defs rubberband.defs)

lemma run_inv: "overlay_has_origin h \<Longrightarrow> overlay_has_origin (run ops h)"
  unfolding run_def by (induction ops arbitrary: h) (simp_all add: step_inv)

text \<open>
  Claim C4. After every sequence of operations on a constructed handler (pointer-down,
  notifications of the graph, moves, releases, native events on the document, pans,
  gestures, resets, dispose, enabling, disabling, reconfiguration, timers) the overlay
  reference is non-null exactly in the state Dragging and the origin is non-null exactly
  in the states Armed and Dragging; so an overlay is never held without an origin. Every
  single operation keeps this, and reset sets both to null together.
\<close>

theorem drag_state_invariant:
  "(div_rb (run ops (constructor g)) \<noteq> None \<longleftrightarrow>
      drag_state (run ops (constructor g)) = Dragging) \<and>
   (origin (run ops (constructor g)) \<noteq> None \<longleftrightarrow>
      drag_state (run ops (constructor g)) = Armed \<or>
      drag_state (run ops (constructor g)) = Dragging) \<and>
   (div_rb (run ops (constructor g)) \<noteq> None \<longrightarrow> origin (run ops (constructor g)) \<noteq> None) \<and>
   (overlay_has_origin h \<longrightarrow> overlay_has_origin (step a h)) \<and>
   origin (reset h) = None \<and> div_rb (reset h) = None"
proof -
  have "overlay_has_origin (run ops (constructor g))"
    by (rule run_inv) (rule constructor_inv)
  then have "div_rb (run ops (constructor g)) \<noteq> None \<longrightarrow>
             origin (run ops (constructor g)) \<noteq> None"
    by (simp add: overlay_has_origin_def)
  moreover have "overlay_has_origin h \<longrightarrow> overlay_has_origin (step a h)"
    by (simp add: step_inv)
  ultimately show ?thesis
    by (auto simp add: drag_state_def reset_cleared simp del: step.simps)
qed

text \<open>After the drag from (10, 10) to (50, 40) the handler is Dragging and holds both;
  after the pointer-down alone it is Armed and holds the origin only.\<close>

theorem drag_state_invariant_witness:
  "div_rb dragging0 \<noteq> None \<and> drag_state dragging0 = Dragging \<and> origin dragging0 \<noteq> None \<and>
   div_rb armed0 = None \<and> drag_state armed0 = Armed \<and> origin armed0 \<noteq> None \<and>
   overlay_has_origin dragging0 \<and>
   overlay_has_origin (step (OpMouseUp (pointer 3 50 40)) dragging0) \<and>
   drag_state (step (OpMouseUp (pointer 3 50 40)) dragging0) = Idle"
proof -
  have d: "div_rb dragging0 \<noteq> None" and a: "div_rb armed0 = None" "origin armed0 \<noteq> None"
    by (simp_all add: dragging0_facts armed0_facts)
  from drag_state_invariant
         [of "[OpMouseDown (pointer 1 10 10), OpMouseMove (pointer 2 50 40)]" graph0
             dragging0 "OpMouseUp (pointer 3 50 40)"] d
  have "drag_state dragging0 = Dragging" and "origin dragging0 \<noteq> None"
    and "overlay_has_origin dragging0 \<longrightarrow>
         overlay_has_origin (step (OpMouseUp (pointer 3 50 40)) dragging0)"
    unfolding dragging0_def [symmetric] by blast+
  moreover from drag_state_invariant [of "[OpMouseDown (pointer 1 10 10)]" graph0] a
  have "drag_state armed0 = Armed"
    unfolding armed0_def [symmetric] by blast
  moreover have "overlay_has_origin dragging0"
    by (simp add: overlay_has_origin_def dragging0_facts)
  moreover have "drag_state (step (OpMouseUp (pointer 3 50 40)) dragging0) = Idle"
    by (simp add: drag_state_def mouseUp_def Let_def execute_def reset_cleared)
  ultimately show ?thesis
    using d a by simp
qed

section \<open>Gesture notifications\<close>




















section \<open>A drag that stays within the tolerance\<close>

lemma mouseMove_within:
  "div_rb h = None \<Longrightarrow> origin h = Some p \<Longrightarrow> withinTolerance p e h \<Longrightarrow> mouseMove e h = (e, h)"
  by (simp add: mouseMove_def withinTolerance_def Let_def not_less)

lemma moves_within:
  "div_rb h = None \<Longrightarrow> origin h = Some p \<Longrightarrow> \<forall>e\<in>set es. withinTolerance p e h \<Longrightarrow>
   moves es h = h"
  unfolding moves_def by (induction es) (simp_all add: mouseMove_within)

lemma prepare_keeps:
  "origin (snd (prepare e h)) = Some (getPosition e h)" "div_rb (snd (prepare e h)) = div_rb h"
  "sharedDiv (snd (prepare e h)) = sharedDiv h" "fadeOut (snd (prepare e h)) = fadeOut h"
  "nextElem (snd (prepare e h)) = nextElem h" "selectCalls (snd (prepare e h)) = selectCalls h"
  "children (snd (prepare e h)) = children h"
  by (simp_all add: prepare_def Let_def start_keeps)

text \<open>
  Claim C1, amended. Let a pointer-down be accepted while the handler holds no overlay,
  and let every move that follows lie within the tolerance of the graph, seen from the
  origin that the pointer-down set, on both axes. Then every one of these moves leaves the
  handler and its environment as they are: no element is created, none is appended to the
  container, the handler stays Armed. The release that follows resets the handler, leaves
  its event unconsumed and calls \<^verbatim>\<open>selectCellsInRegion\<close> not at all.
\<close>

theorem click_without_overlay:
  assumes "div_rb h = None"
    and "h1 = snd (prepare e h)"
    and "\<forall>m\<in>set ms. withinTolerance (getPosition e h) m h1"
  shows "origin h1 = Some (getPosition e h) \<and>
         (\<forall>m\<in>set ms. mouseMove m h1 = (m, h1)) \<and>
         moves ms h1 = h1 \<and>
         div_rb (moves ms h1) = None \<and>
         nextElem (moves ms h1) = nextElem h \<and>
         children (moves ms h1) = children h \<and>
         drag_state (moves ms h1) = Armed \<and>
         mouseUp r (moves ms h1) = (r, reset h1) \<and>
         selectCalls (snd (mouseUp r (moves ms h1))) = selectCalls h \<and>
         drag_state (snd (mouseUp r (moves ms h1))) = Idle"
proof -
  have o: "origin h1 = Some (getPosition e h)" and d: "div_rb h1 = None"
    and n: "nextElem h1 = nextElem h" and c: "children h1 = children h"
    and s: "selectCalls h1 = selectCalls h"
    using assms(1,2) by (simp_all add: prepare_keeps)
  have each: "\<forall>m\<in>set ms. mouseMove m h1 = (m, h1)"
    using assms(3) d o by (simp add: mouseMove_within)
  have all: "moves ms h1 = h1"
    using d o assms(3) by (rule moves_within)
  have up: "mouseUp r h1 = (r, reset h1)"
    using d by (simp add: mouseUp_def isActive_def Let_def)
  have armed: "drag_state h1 = Armed"
    using o d by (simp add: drag_state_def)
  have idle: "drag_state (reset h1) = Idle"
    by (simp add: drag_state_def reset_cleared)
  show ?thesis
    unfolding all up using o d n c s each armed idle
    by (simp add: selectCalls_reset)
qed

text \<open>The scenario of the specification: down at (10, 10), move to (11, 11), release.\<close>

theorem click_without_overlay_witness:
  "div_rb (constructor graph0) = None \<and>
   withinTolerance \<lparr> x_pt = 10, y_pt = 10 \<rparr> (pointer 2 11 11) armed0 \<and>
   moves [pointer 2 11 11] armed0 = armed0 \<and>
   div_rb (moves [pointer 2 11 11] armed0) = None \<and>
   nextElem (moves [pointer 2 11 11] armed0) = 0 \<and>
   fst (mouseUp (pointer 3 11 11) (moves [pointer 2 11 11] armed0)) = pointer 3 11 11 \<and>
   selectCalls (snd (mouseUp (pointer 3 11 11) (moves [pointer 2 11 11] armed0))) = []"
proof -
  let ?h = "constructor graph0"
  have a: "div_rb ?h = None" and v: "isValid ?h (pointer 1 10 10)"
    and p: "getPosition (pointer 1 10 10) ?h = \<lparr> x_pt = 10, y_pt = 10 \<rparr>"
    by (simp_all add: constructor_graph0 isValid_def pointer_facts getPosition_def)
  have b: "armed0 = snd (prepare (pointer 1 10 10) ?h)"
    using v by (simp add: armed0_def run_def mouseDown_def pointer_facts)
  have w: "withinTolerance \<lparr> x_pt = 10, y_pt = 10 \<rparr> (pointer 2 11 11) armed0"
    by (simp add: withinTolerance_def getPosition_def pointer_facts armed0_eq)
  have c: "\<forall>m\<in>set [pointer 2 11 11]. withinTolerance (getPosition (pointer 1 10 10) ?h) m armed0"
    unfolding p using w by simp
  from click_without_overlay [OF a b c, of "pointer 3 11 11"]
  have "moves [pointer 2 11 11] armed0 = armed0"
    and "div_rb (moves [pointer 2 11 11] armed0) = None"
    and "nextElem (moves [pointer 2 11 11] armed0) = nextElem ?h"
    and "mouseUp (pointer 3 11 11) (moves [pointer 2 11 11] armed0) = (pointer 3 11 11, reset armed0)"
    and "selectCalls (snd (mouseUp (pointer 3 11 11) (moves [pointer 2 11 11] armed0))) = selectCalls ?h"
    by blast+
  then show ?thesis
    using a w by (simp add: constructor_graph0)
qed

text \<open>
  As the claim is stated, for every accepted pointer-down, it fails when the pointer-down
  arrives while an overlay is held; \<^verbatim>\<open>start\<close> sets the new origin and leaves the overlay.
  During the drag from (10, 10) to (50, 40) a pointer-down with the Alt key held at
  (20, 30) is accepted by the \<^verbatim>\<open>mouseEvent\<close> subscription (as a plain one at (50, 40) is
  by \<^verbatim>\<open>mouseDown\<close>) and sets a new origin; the move to (21, 31) lies within the tolerance
  of 4 and creates no element; the release calls \<^verbatim>\<open>selectCellsInRegion\<close> with the
  rectangle (20, 30, 1, 1).
\<close>

theorem rearmed_click_commits:
  "div_rb dragging0 = Some 0 \<and> selectCalls dragging0 = [] \<and>
   fireMouseEvent ''mouseDown'' forced dragging0 = prepare forced dragging0 \<and>
   mouseDown (pointer 3 50 40) dragging0 = prepare (pointer 3 50 40) dragging0 \<and>
   origin (snd (prepare forced dragging0)) = Some \<lparr> x_pt = 20, y_pt = 30 \<rparr> \<and>
   withinTolerance \<lparr> x_pt = 20, y_pt = 30 \<rparr> (pointer 4 21 31) (snd (prepare forced dragging0)) \<and>
   nextElem (moves [pointer 4 21 31] (snd (prepare forced dragging0))) = nextElem dragging0 \<and>
   selectCalls (snd (mouseUp (pointer 5 21 31)
       (moves [pointer 4 21 31] (snd (prepare forced dragging0))))) =
     [(Rectangle (Some 20) (Some 30) (Some 1) (Some 1), native 5 21 31)]"
  by (simp add: dragging0_eq eval_defs moves_def withinTolerance_def forced_def
      fireMouseEvent_def onMouseEvent_def isForceRubberbandEvent_def)

section \<open>The shared overlay\<close>

lemma reset_keeps:
  "sharedDiv (reset h) = sharedDiv h" "fadeOut (reset h) = fadeOut h"
  "nextElem (reset h) = nextElem h"
  by (simp_all add: reset_def Let_def removeElement_def split: option.splits)

lemma createShape_result:
  "fst (createShape h) = (case sharedDiv h of None \<Rightarrow> nextElem h | Some d \<Rightarrow> d)"
  "sharedDiv (snd (createShape h)) =
     (if fadeOut h then None
      else Some (case sharedDiv h of None \<Rightarrow> nextElem h | Some d \<Rightarrow> d))"
  "nextElem (snd (createShape h)) =
     (case sharedDiv h of None \<Rightarrow> Suc (nextElem h) | Some d \<Rightarrow> nextElem h)"
  by (simp_all add: createShape_def createElement_def appendChild_def Let_def
      split: option.splits)

lemma mouseMove_creates:
  assumes "\<not> isConsumed e" and "origin h = Some p" and "div_rb h = None"
    and "\<not> withinTolerance p e h"
  shows "div_rb (snd (mouseMove e h)) = Some (fst (createShape h))"
    and "sharedDiv (snd (mouseMove e h)) = sharedDiv (snd (createShape h))"
    and "nextElem (snd (mouseMove e h)) = nextElem (snd (createShape h))"
  using assms
  by (auto simp add: mouseMove_def withinTolerance_def Let_def split_def update_def
      clearSelection_def repaint_keeps)

lemma mouseMove_fadeOut: "fadeOut (snd (mouseMove e h)) = fadeOut h"
  by (simp add: mouseMove_def Let_def update_def clearSelection_def repaint_keeps
      createShape_keeps split_def split: option.splits)

lemma mouseMove_sharedDiv:
  "sharedDiv (snd (mouseMove e h)) = sharedDiv h \<or>
   sharedDiv (snd (mouseMove e h)) = sharedDiv (snd (createShape h))"
  by (simp add: mouseMove_def Let_def update_def clearSelection_def repaint_keeps
      split_def split: option.splits)

text \<open>The shared reference follows the mode: every operation but a re-reading of the
  configuration and dispose keeps the mode, keeps a cleared reference cleared under
  fade-out, and keeps a held reference held without fade-out.\<close>

lemma shared_follows_same:
  "fadeOut k = fadeOut h \<Longrightarrow> sharedDiv k = sharedDiv h \<Longrightarrow>
   shared_follows h0 h \<Longrightarrow> shared_follows h0 k"
  by (simp add: shared_follows_def)

lemma mouseMove_shared: "shared_follows h0 h \<Longrightarrow> shared_follows h0 (snd (mouseMove e h))"
  using mouseMove_sharedDiv [of e h]
  by (auto simp add: shared_follows_def mouseMove_fadeOut createShape_result)

lemma mouseUp_shared: "shared_follows h0 h \<Longrightarrow> shared_follows h0 (snd (mouseUp e h))"
  by (rule shared_follows_same [of _ h])
     (simp_all add: mouseUp_def Let_def execute_def reset_keeps)

lemma mouseDown_shared: "shared_follows h0 h \<Longrightarrow> shared_follows h0 (snd (mouseDown e h))"
  by (rule shared_follows_same [of _ h]) (simp_all add: mouseDown_def prepare_keeps)

lemma fireMouseEvent_shared:
  "shared_follows h0 h \<Longrightarrow> shared_follows h0 (snd (fireMouseEvent n e h))"
  by (rule shared_follows_same [of _ h])
     (simp_all add: fireMouseEvent_def onMouseEvent_def prepare_keeps)

lemma documentMouseMove_shared:
  "shared_follows h0 h \<Longrightarrow> shared_follows h0 (documentMouseMove n h)"
  unfolding documentMouseMove_def
  by (rule fold_listeners_inv) (simp_all add: mouseMove_shared split: listener.splits)

lemma documentMouseUp_shared:
  "shared_follows h0 h \<Longrightarrow> shared_follows h0 (documentMouseUp n h)"
  unfolding documentMouseUp_def
  by (rule fold_listeners_inv) (simp_all add: mouseUp_shared split: listener.splits)

lemma step_shared:
  assumes "a \<noteq> OpConfig" and "a \<noteq> OpDispose" and "shared_follows h0 h"
  shows "shared_follows h0 (step a h)"
proof (cases a)
  case (OpPanTo x y)
  show ?thesis
    by (rule shared_follows_same [OF _ _ assms(3)])
       (simp_all add: OpPanTo firePan_def onPan_def repaint_keeps)
next
  case OpGesture
  show ?thesis
    by (rule shared_follows_same [OF _ _ assms(3)])
       (simp_all add: OpGesture fireGesture_def onGesture_def reset_keeps)
next
  case OpReset
  show ?thesis
    by (rule shared_follows_same [OF _ _ assms(3)]) (simp_all add: OpReset reset_keeps)
next
  case OpEnable
  show ?thesis
    by (rule shared_follows_same [OF _ _ assms(3)]) (simp_all add: OpEnable enable_def)
next
  case OpDisable
  show ?thesis
    by (rule shared_follows_same [OF _ _ assms(3)]) (simp_all add: OpDisable disable_def)
next
  case (OpSetOptions en fo)
  show ?thesis
    by (rule shared_follows_same [OF _ _ assms(3)]) (simp_all add: OpSetOptions)
next
  case OpTimeout
  show ?thesis
    by (rule shared_follows_same [OF _ _ assms(3)])
       (simp_all add: OpTimeout fireTimeout_def removeElement_def split: list.splits)
qed (use assms in \<open>simp_all add: mouseDown_shared fireMouseEvent_shared mouseMove_shared
      mouseUp_shared documentMouseMove_shared documentMouseUp_shared\<close>)

lemma run_shared:
  assumes "OpConfig \<notin> set ops" and "OpDispose \<notin> set ops" and "shared_follows h0 h"
  shows "shared_follows h0 (run ops h)"
  using assms unfolding run_def
proof (induction ops arbitrary: h)
  case Nil
  then show ?case by simp
next
  case (Cons a ops)
  from Cons.prems have "a \<noteq> OpConfig" and "a \<noteq> OpDispose"
    by auto
  then have "shared_follows h0 (step a h)"
    using Cons.prems(3) by (rule step_shared)
  with Cons.IH Cons.prems(1,2) show ?case
    by simp
qed

text \<open>Every element that the handler or its environment refers to has been handed out
  by \<^verbatim>\<open>document.createElement\<close> before.\<close>

lemma ids_allocated_same:
  "children k = children h \<Longrightarrow> timers k = timers h \<Longrightarrow> nextElem k = nextElem h \<Longrightarrow>
   sharedDiv k = sharedDiv h \<Longrightarrow> div_rb k = div_rb h \<Longrightarrow>
   ids_allocated h \<Longrightarrow> ids_allocated k"
  by (simp add: ids_allocated_def)

lemma repaint_timers: "timers (repaint h) = timers h"
  by (simp add: repaint_def Let_def split: option.splits)

lemma start_timers: "timers (start x y h) = timers h"
  by (simp add: start_def Let_def)

lemma prepare_timers: "timers (snd (prepare e h)) = timers h"
  by (simp add: prepare_def Let_def start_timers)

lemma createShape_ids: "ids_allocated h \<Longrightarrow> ids_allocated (snd (createShape h))"
  by (auto simp add: ids_allocated_def createShape_def createElement_def appendChild_def
      Let_def less_Suc_eq split: option.splits)

lemma createShape_fst_ids:
  "ids_allocated h \<Longrightarrow> fst (createShape h) < nextElem (snd (createShape h))"
  by (auto simp add: ids_allocated_def createShape_def createElement_def appendChild_def
      Let_def split: option.splits)

lemma mouseMove_ids: "ids_allocated h \<Longrightarrow> ids_allocated (snd (mouseMove e h))"
proof -
  assume a: "ids_allocated h"
  have b: "ids_allocated ((snd (createShape h))\<lparr> div_rb := Some (fst (createShape h)) \<rparr>)"
    using createShape_ids [OF a] createShape_fst_ids [OF a]
    by (simp add: ids_allocated_def)
  have c: "\<And>k x y. ids_allocated k \<Longrightarrow> ids_allocated (update x y (clearSelection k))"
    by (rule ids_allocated_same)
       (simp_all add: update_def clearSelection_def repaint_keeps repaint_timers)
  show ?thesis
    using a b by (simp add: mouseMove_def Let_def split_def c split: option.splits)
qed

lemma reset_ids: "ids_allocated h \<Longrightarrow> ids_allocated (reset h)"
  by (auto simp add: ids_allocated_def reset_def Let_def removeElement_def split: option.splits)

lemma mouseUp_ids: "ids_allocated h \<Longrightarrow> ids_allocated (snd (mouseUp e h))"
  using reset_ids [of h] by (simp add: mouseUp_def Let_def execute_def ids_allocated_def)

lemma mouseDown_ids: "ids_allocated h \<Longrightarrow> ids_allocated (snd (mouseDown e h))"
  by (rule ids_allocated_same [of _ h])
     (simp_all add: mouseDown_def prepare_keeps prepare_timers)

lemma fireMouseEvent_ids: "ids_allocated h \<Longrightarrow> ids_allocated (snd (fireMouseEvent n e h))"
  by (rule ids_allocated_same [of _ h])
     (simp_all add: fireMouseEvent_def onMouseEvent_def prepare_keeps prepare_timers)

lemma documentMouseMove_ids: "ids_allocated h \<Longrightarrow> ids_allocated (documentMouseMove n h)"
  unfolding documentMouseMove_def
  by (rule fold_listeners_inv) (simp_all add: mouseMove_ids split: listener.splits)

lemma documentMouseUp_ids: "ids_allocated h \<Longrightarrow> ids_allocated (documentMouseUp n h)"
  unfolding documentMouseUp_def
  by (rule fold_listeners_inv) (simp_all add: mouseUp_ids split: listener.splits)

lemma dispose_ids: "ids_allocated h \<Longrightarrow> ids_allocated (dispose h)"
proof -
  assume "ids_allocated h"
  then have "ids_allocated (h\<lparr> handlerRegistered := False,
      channels := channels h - {PanChannel} - {GestureChannel} - {MouseEventChannel} \<rparr>)"
    by (simp add: ids_allocated_def)
  then have "ids_allocated (reset (h\<lparr> handlerRegistered := False,
      channels := channels h - {PanChannel} - {GestureChannel} - {MouseEventChannel} \<rparr>))"
    by (rule reset_ids)
  then show ?thesis
    by (simp add: dispose_def Let_def ids_allocated_def)
qed

lemma step_ids:
  assumes "ids_allocated h"
  shows "ids_allocated (step a h)"
proof (cases a)
  case (OpPanTo x y)
  show ?thesis
    by (rule ids_allocated_same [OF _ _ _ _ _ assms])
       (simp_all add: OpPanTo firePan_def onPan_def repaint_keeps repaint_timers)
next
  case OpGesture
  with assms show ?thesis
    by (simp add: fireGesture_def onGesture_def reset_ids)
next
  case OpEnable
  with assms show ?thesis
    by (simp add: enable_def ids_allocated_def)
next
  case OpDisable
  with assms show ?thesis
    by (simp add: disable_def ids_allocated_def)
next
  case (OpSetOptions en fo)
  with assms show ?thesis
    by (simp add: ids_allocated_def)
next
  case OpConfig
  with assms show ?thesis
    by (simp add: config_def ids_allocated_def)
next
  case OpTimeout
  with assms show ?thesis
    by (auto simp add: fireTimeout_def removeElement_def ids_allocated_def split: list.splits)
qed (simp_all add: assms mouseDown_ids fireMouseEvent_ids mouseMove_ids mouseUp_ids
      documentMouseMove_ids documentMouseUp_ids reset_ids dispose_ids)

lemma run_ids: "ids_allocated h \<Longrightarrow> ids_allocated (run ops h)"
  unfolding run_def by (induction ops arbitrary: h) (simp_all add: step_ids del: step.simps)

lemma constructor_ids:
  "\<forall>d\<in>set (children g) \<union> set (timers g). d < nextElem g \<Longrightarrow> ids_allocated (constructor g)"
  by (simp add: ids_allocated_def constructor_def config_def Let_def graph_env.defs
      rubberband.defs)

lemma second0_facts:
  "origin second0 = Some \<lparr> x_pt = 20, y_pt = 20 \<rparr>" "div_rb second0 = None"
  "sharedDiv second0 = Some 0" "\<not> fadeOut second0" "nextElem second0 = 1"
  "tolerance second0 = 4" "scrollOrigin second0 = \<lparr> x_pt = 0, y_pt = 0 \<rparr>"
  "containerOffset second0 = \<lparr> x_pt = 0, y_pt = 0 \<rparr>"
  by (simp_all add: second0_def dragging0_eq eval_defs)

lemma second_fading0_facts:
  "origin second_fading0 = Some \<lparr> x_pt = 20, y_pt = 20 \<rparr>" "div_rb second_fading0 = None"
  "sharedDiv second_fading0 = None" "fadeOut second_fading0" "nextElem second_fading0 = 1"
  "tolerance second_fading0 = 4" "scrollOrigin second_fading0 = \<lparr> x_pt = 0, y_pt = 0 \<rparr>"
  "containerOffset second_fading0 = \<lparr> x_pt = 0, y_pt = 0 \<rparr>"
  "timers second_fading0 = [0]" "children second_fading0 = [0]"
  by (simp_all add: second_fading0_def fading0_eq eval_defs)

text \<open>What a move that creates the overlay takes, after operations that neither re-read
  the configuration nor dispose of the handler.\<close>

lemma overlay_taken:
  assumes "OpConfig \<notin> set ops" and "OpDispose \<notin> set ops"
    and "h = run ops h0"
    and "\<not> isConsumed e" and "origin h = Some p" and "div_rb h = None"
    and "\<not> withinTolerance p e h"
    and "h' = snd (mouseMove e h)"
  shows "(\<not> fadeOut h0 \<longrightarrow>
            \<not> fadeOut h \<and> sharedDiv h' = div_rb h' \<and>
            (\<forall>d. sharedDiv h0 = Some d \<longrightarrow> sharedDiv h = Some d) \<and>
            (\<forall>d. sharedDiv h = Some d \<longrightarrow> div_rb h' = Some d \<and> nextElem h' = nextElem h) \<and>
            (sharedDiv h = None \<longrightarrow>
               div_rb h' = Some (nextElem h) \<and> nextElem h' = Suc (nextElem h))) \<and>
         (fadeOut h0 \<longrightarrow>
            fadeOut h \<and> sharedDiv h' = None \<and>
            (sharedDiv h0 = None \<longrightarrow> sharedDiv h = None) \<and>
            (sharedDiv h = None \<longrightarrow>
               div_rb h' = Some (nextElem h) \<and> nextElem h' = Suc (nextElem h)))"
proof -
  have "shared_follows h0 h0"
    by (simp add: shared_follows_def)
  then have f: "shared_follows h0 h"
    unfolding assms(3) using assms(1,2) by (simp add: run_shared)
  have d: "div_rb h' = Some (case sharedDiv h of None \<Rightarrow> nextElem h | Some d \<Rightarrow> d)"
    and s: "sharedDiv h' =
              (if fadeOut h then None
               else Some (case sharedDiv h of None \<Rightarrow> nextElem h | Some d \<Rightarrow> d))"
    and n: "nextElem h' = (case sharedDiv h of None \<Rightarrow> Suc (nextElem h) | Some d \<Rightarrow> nextElem h)"
    unfolding assms(8)
    using mouseMove_creates [OF assms(4-7)] by (simp_all add: createShape_result)
  from f show ?thesis
    unfolding d s n by (auto simp add: shared_follows_def)
qed

text \<open>In an environment where every element in use has been created, the element that
  the next \<^verbatim>\<open>document.createElement\<close> makes is neither in the container nor awaited
  by a timer, whatever operations came before.\<close>

lemma new_overlay_fresh:
  assumes "\<forall>d\<in>set (children g) \<union> set (timers g). d < nextElem g"
    and "h = run ops (constructor g)"
  shows "nextElem h \<notin> set (children h) \<and> nextElem h \<notin> set (timers h)"
proof -
  have "ids_allocated (constructor g)"
    using assms(1) by (rule constructor_ids)
  then have "ids_allocated h"
    unfolding assms(2) by (rule run_ids)
  then show ?thesis
    by (auto simp add: ids_allocated_def)
qed

text \<open>Elements are handed out in rising order.\<close>

lemma createShape_nextElem: "nextElem h \<le> nextElem (snd (createShape h))"
  by (simp add: createShape_result split: option.splits)

lemma mouseMove_nextElem: "nextElem h \<le> nextElem (snd (mouseMove e h))"
  using createShape_nextElem [of h]
  by (simp add: mouseMove_def Let_def update_def clearSelection_def repaint_keeps
      split_def split: option.splits)

lemma fold_listeners_mono:
  assumes "\<And>l k. (n::nat) \<le> m k \<Longrightarrow> n \<le> m (f l k)"
  shows "n \<le> m h \<Longrightarrow> n \<le> m (fold f ls h)"
  using assms by (induction ls arbitrary: h) simp_all

lemma step_nextElem: "nextElem h \<le> nextElem (step a h)"
proof (cases a)
  case (OpMouseMove e)
  then show ?thesis by (simp add: mouseMove_nextElem)
next
  case (OpDocumentMove n)
  have "nextElem h \<le> nextElem (documentMouseMove n h)"
    unfolding documentMouseMove_def
    by (rule fold_listeners_mono)
       (auto split: listener.splits intro: order_trans [OF _ mouseMove_nextElem])
  then show ?thesis by (simp add: OpDocumentMove)
next
  case (OpDocumentUp n)
  have "nextElem h \<le> nextElem (documentMouseUp n h)"
    unfolding documentMouseUp_def
    by (rule fold_listeners_mono)
       (auto simp add: mouseUp_def Let_def execute_def reset_keeps split: listener.splits)
  then show ?thesis by (simp add: OpDocumentUp)
qed (simp_all add: mouseDown_def prepare_keeps fireMouseEvent_def onMouseEvent_def
      mouseUp_def Let_def execute_def reset_keeps firePan_def onPan_def repaint_keeps
      fireGesture_def onGesture_def dispose_def enable_def disable_def config_def
      fireTimeout_def removeElement_def split: list.splits)

lemma run_nextElem: "nextElem h \<le> nextElem (run ops h)"
  unfolding run_def
proof (induction ops arbitrary: h)
  case Nil
  show ?case by simp
next
  case (Cons a ops)
  have "nextElem h \<le> nextElem (step a h)" by (rule step_nextElem)
  also have "\<dots> \<le> nextElem (fold step ops (step a h))" by (rule Cons.IH)
  finally show ?case by simp
qed

lemma constructor_shared:
  "fadeOut (constructor g) = options_fadeOut g" "sharedDiv (constructor g) = None"
  by (simp_all add: constructor_def config_def Let_def graph_env.defs rubberband.defs)

lemma fading_rearmed0_facts:
  "origin fading_rearmed0 = Some \<lparr> x_pt = 20, y_pt = 20 \<rparr>" "div_rb fading_rearmed0 = Some 0"
  "fadeOut fading_rearmed0" "nextElem fading_rearmed0 = 1"
  by (simp_all add: fading_rearmed0_def fading0_eq eval_defs)

lemma fading_armed0_facts:
  "origin fading_armed0 = Some \<lparr> x_pt = 10, y_pt = 10 \<rparr>" "div_rb fading_armed0 = None"
  "nextElem fading_armed0 = 0" "tolerance fading_armed0 = 4"
  "scrollOrigin fading_armed0 = \<lparr> x_pt = 0, y_pt = 0 \<rparr>"
  "containerOffset fading_armed0 = \<lparr> x_pt = 0, y_pt = 0 \<rparr>"
  by (simp_all add: fading_armed0_def constructor_def config_def graph0_def graph_env.defs
      rubberband.defs eval_defs)

lemma example_drags:
  "dragging0 = snd (mouseMove (pointer 2 50 40) armed0)"
  "fading0 = snd (mouseMove (pointer 2 50 40) fading_armed0)"
  "second0 = run [OpMouseUp (pointer 3 50 40), OpMouseDown (pointer 4 20 20)] dragging0"
  "second_fading0 = run [OpMouseUp (pointer 3 50 40), OpMouseDown (pointer 4 20 20)] fading0"
  by (simp_all add: dragging0_def armed0_def fading0_def fading_armed0_def second0_def
      second_fading0_def run_def)

text \<open>
  Claim C8, amended. Take a handler that since its construction has neither re-read its
  configuration nor been disposed of, and any two moves on it, one after the other, that
  exceed the tolerance while no overlay is held. Without fade-out, the first move takes
  the shared overlay, creating it if there is none yet, and keeps it as the shared
  reference; the second move takes the same element and creates nothing. With fade-out,
  each of the two moves creates a brand-new element and leaves the shared reference null;
  the element of the second move is not that of the first.
\<close>

theorem overlay_per_drag:
  assumes "OpConfig \<notin> set ops1" and "OpDispose \<notin> set ops1"
    and "OpConfig \<notin> set ops2" and "OpDispose \<notin> set ops2"
    and "h1 = run ops1 (constructor g)"
    and "\<not> isConsumed e1" and "origin h1 = Some p1" and "div_rb h1 = None"
    and "\<not> withinTolerance p1 e1 h1"
    and "k1 = snd (mouseMove e1 h1)"
    and "h2 = run ops2 k1"
    and "\<not> isConsumed e2" and "origin h2 = Some p2" and "div_rb h2 = None"
    and "\<not> withinTolerance p2 e2 h2"
    and "k2 = snd (mouseMove e2 h2)"
  shows "(\<not> options_fadeOut g \<longrightarrow>
            (sharedDiv h1 = None \<longrightarrow>
               div_rb k1 = Some (nextElem h1) \<and> nextElem k1 = Suc (nextElem h1)) \<and>
            (\<forall>d. sharedDiv h1 = Some d \<longrightarrow> div_rb k1 = Some d \<and> nextElem k1 = nextElem h1) \<and>
            sharedDiv k1 = div_rb k1 \<and>
            div_rb k2 = div_rb k1 \<and> sharedDiv k2 = div_rb k1 \<and> nextElem k2 = nextElem h2) \<and>
         (options_fadeOut g \<longrightarrow>
            div_rb k1 = Some (nextElem h1) \<and> nextElem k1 = Suc (nextElem h1) \<and>
            sharedDiv k1 = None \<and>
            div_rb k2 = Some (nextElem h2) \<and> nextElem k2 = Suc (nextElem h2) \<and>
            sharedDiv k2 = None \<and>
            div_rb k2 \<noteq> div_rb k1)"
proof -
  let ?c = "constructor g"
  note first = overlay_taken [OF assms(1,2) assms(5-10)]
  note second = overlay_taken [OF assms(3,4) assms(11-16)]
  have mono: "nextElem k1 \<le> nextElem h2"
    unfolding assms(11) by (rule run_nextElem)
  show ?thesis
  proof (cases "options_fadeOut g")
    case True
    then have f: "fadeOut ?c" and s: "sharedDiv ?c = None"
      by (simp_all add: constructor_shared)
    from first f s have a: "fadeOut h1" "sharedDiv k1 = None" "sharedDiv h1 = None"
      "div_rb k1 = Some (nextElem h1)" "nextElem k1 = Suc (nextElem h1)"
      by blast+
    have fk: "fadeOut k1"
      unfolding assms(10) using a(1) by (simp add: mouseMove_fadeOut)
    from second fk a(2) have b: "sharedDiv k2 = None" "sharedDiv h2 = None"
      "div_rb k2 = Some (nextElem h2)" "nextElem k2 = Suc (nextElem h2)"
      by blast+
    from mono a(5) have "nextElem h1 \<noteq> nextElem h2"
      by simp
    with True a b show ?thesis
      by simp
  next
    case False
    then have f: "\<not> fadeOut ?c"
      by (simp add: constructor_shared)
    from first f have a: "\<not> fadeOut h1" "sharedDiv k1 = div_rb k1"
      "\<forall>d. sharedDiv h1 = Some d \<longrightarrow> div_rb k1 = Some d \<and> nextElem k1 = nextElem h1"
      "sharedDiv h1 = None \<longrightarrow> div_rb k1 = Some (nextElem h1) \<and> nextElem k1 = Suc (nextElem h1)"
      by blast+
    from a(3,4) obtain d where d: "div_rb k1 = Some d"
      by (cases "sharedDiv h1") auto
    have fk: "\<not> fadeOut k1"
      unfolding assms(10) using a(1) by (simp add: mouseMove_fadeOut)
    from second fk have b: "sharedDiv k2 = div_rb k2"
      "\<forall>d. sharedDiv k1 = Some d \<longrightarrow> sharedDiv h2 = Some d"
      "\<forall>d. sharedDiv h2 = Some d \<longrightarrow> div_rb k2 = Some d \<and> nextElem k2 = nextElem h2"
      by blast+
    from b(2) a(2) d have "sharedDiv h2 = Some d"
      by simp
    with b(3) have "div_rb k2 = Some d" "nextElem k2 = nextElem h2"
      by simp_all
    with False a b(1) d show ?thesis
      by simp
  qed
qed

text \<open>Two drags on the example graph, the second after the release of the first: without
  fade-out both take element 0; with fade-out the first takes element 0 and the second
  the new element 1, while element 0 awaits its timer.\<close>

theorem overlay_per_drag_witness:
  "\<not> options_fadeOut graph0 \<and>
   sharedDiv armed0 = None \<and> div_rb armed0 = None \<and>
   \<not> withinTolerance \<lparr> x_pt = 10, y_pt = 10 \<rparr> (pointer 2 50 40) armed0 \<and>
   div_rb dragging0 = Some 0 \<and> nextElem dragging0 = 1 \<and>
   div_rb second0 = None \<and>
   \<not> withinTolerance \<lparr> x_pt = 20, y_pt = 20 \<rparr> (pointer 5 60 60) second0 \<and>
   div_rb (snd (mouseMove (pointer 5 60 60) second0)) = Some 0 \<and>
   sharedDiv (snd (mouseMove (pointer 5 60 60) second0)) = Some 0 \<and>
   nextElem (snd (mouseMove (pointer 5 60 60) second0)) = 1 \<and>
   options_fadeOut (graph0\<lparr> options_fadeOut := True \<rparr>) \<and>
   div_rb fading_armed0 = None \<and> div_rb fading0 = Some 0 \<and> sharedDiv fading0 = None \<and>
   div_rb second_fading0 = None \<and> timers second_fading0 = [0] \<and>
   div_rb (snd (mouseMove (pointer 5 60 60) second_fading0)) = Some 1 \<and>
   sharedDiv (snd (mouseMove (pointer 5 60 60) second_fading0)) = None \<and>
   nextElem (snd (mouseMove (pointer 5 60 60) second_fading0)) = 2"
proof -
  let ?ops1 = "[OpMouseDown (pointer 1 10 10)]"
  let ?ops2 = "[OpMouseUp (pointer 3 50 40), OpMouseDown (pointer 4 20 20)]"
  let ?g = "graph0\<lparr> options_fadeOut := True \<rparr>"
  let ?e1 = "pointer 2 50 40"
  let ?e2 = "pointer 5 60 60"
  let ?p1 = "\<lparr> x_pt = 10, y_pt = 10 \<rparr>"
  let ?p2 = "\<lparr> x_pt = 20, y_pt = 20 \<rparr>"
  have ops: "OpConfig \<notin> set ?ops1" "OpDispose \<notin> set ?ops1"
    "OpConfig \<notin> set ?ops2" "OpDispose \<notin> set ?ops2"
    by simp_all
  have m: "\<not> options_fadeOut graph0" "options_fadeOut ?g"
    by (simp_all add: graph0_def)
  have c: "\<not> isConsumed ?e1" "\<not> isConsumed ?e2"
    by (simp_all add: pointer_facts)
  have w1: "\<not> withinTolerance ?p1 ?e1 armed0" "\<not> withinTolerance ?p1 ?e1 fading_armed0"
    by (simp_all add: withinTolerance_def getPosition_def pointer_facts armed0_eq
        fading_armed0_facts)
  have w2: "\<not> withinTolerance ?p2 ?e2 second0" "\<not> withinTolerance ?p2 ?e2 second_fading0"
    by (simp_all add: withinTolerance_def getPosition_def pointer_facts second0_facts
        second_fading0_facts)
  have r: "armed0 = run ?ops1 (constructor graph0)" "fading_armed0 = run ?ops1 (constructor ?g)"
    by (simp_all add: armed0_def fading_armed0_def)
  from overlay_per_drag [OF ops r(1) c(1) armed0_facts(1,2) w1(1) example_drags(1)
         example_drags(3) c(2) second0_facts(1,2) w2(1) refl] m(1)
  have "div_rb (snd (mouseMove ?e2 second0)) = div_rb dragging0"
    and "sharedDiv (snd (mouseMove ?e2 second0)) = div_rb dragging0"
    and "nextElem (snd (mouseMove ?e2 second0)) = nextElem second0"
    by blast+
  moreover
  from overlay_per_drag [OF ops r(2) c(1) fading_armed0_facts(1,2) w1(2)
         example_drags(2) example_drags(4) c(2) second_fading0_facts(1,2) w2(2) refl] m(2)
  have "div_rb (snd (mouseMove ?e2 second_fading0)) = Some (nextElem second_fading0)"
    and "sharedDiv (snd (mouseMove ?e2 second_fading0)) = None"
    and "nextElem (snd (mouseMove ?e2 second_fading0)) = Suc (nextElem second_fading0)"
    by blast+
  ultimately show ?thesis
    using m w1 w2
    by (simp add: armed0_facts dragging0_facts second0_facts fading_armed0_facts
        fading0_facts second_fading0_facts)
qed

text \<open>
  As the claim is stated, a brand-new element at every drag that exceeds the tolerance
  under fade-out, it fails for a drag that starts while an overlay is held, since
  \<^verbatim>\<open>mouseMove\<close> creates an overlay only when it holds none. With fade-out on since
  construction, a second pointer-down at (20, 20) during the first drag is accepted; the
  move to (60, 60) exceeds the tolerance, keeps element 0 and creates nothing.
\<close>

theorem rearmed_fade_keeps_overlay:
  "fadeOut (constructor (graph0\<lparr> options_fadeOut := True \<rparr>)) \<and>
   fadeOut fading0 \<and> div_rb fading0 = Some 0 \<and>
   mouseDown (pointer 3 20 20) fading0 = prepare (pointer 3 20 20) fading0 \<and>
   fadeOut fading_rearmed0 \<and>
   origin fading_rearmed0 = Some \<lparr> x_pt = 20, y_pt = 20 \<rparr> \<and>
   \<not> withinTolerance \<lparr> x_pt = 20, y_pt = 20 \<rparr> (pointer 4 60 60) fading_rearmed0 \<and>
   nextElem fading_rearmed0 = 1 \<and>
   div_rb (snd (mouseMove (pointer 4 60 60) fading_rearmed0)) = Some 0 \<and>
   nextElem (snd (mouseMove (pointer 4 60 60) fading_rearmed0)) = 1"
  by (simp add: fading_rearmed0_def fading0_eq eval_defs withinTolerance_def
      constructor_def config_def graph0_def graph_env.defs rubberband.defs)

text \<open>
  Outside the statement above: when fade-out is switched on and the configuration re-read
  between two drags, \<^verbatim>\<open>createShape\<close> finds the shared overlay of the first drag still
  held and hands it to the second, although its own comment reads "if fade out, then
  create a new div everytime".
\<close>

lemma toggled_fade_reuses_shared:
  "div_rb dragging0 = Some 0 \<and>
   fadeOut toggled0 \<and> origin toggled0 = Some \<lparr> x_pt = 20, y_pt = 20 \<rparr> \<and>
   div_rb toggled0 = None \<and> nextElem toggled0 = 1 \<and>
   \<not> withinTolerance \<lparr> x_pt = 20, y_pt = 20 \<rparr> (pointer 5 60 60) toggled0 \<and>
   div_rb (snd (mouseMove (pointer 5 60 60) toggled0)) = Some 0 \<and>
   nextElem (snd (mouseMove (pointer 5 60 60) toggled0)) = 1"
  by (simp add: toggled0_def dragging0_eq eval_defs config_def withinTolerance_def)


end
